theory Spec2Isabelle
  imports Complex_Main
begin

section \<open>JavaScript values and strings\<close>

text \<open>
  The server of \<^verbatim>\<open>src/index-python-api.ts\<close> keeps three maps (windows, tabs, panes) and
  three counters, and fulfils every tool call by writing a Python script to disk, running
  it in a child process and parsing the one JSON object the script prints. The types of
  the TypeScript source are erased at run time, so what \<^verbatim>\<open>JSON.parse\<close> returns is kept here
  as an untyped JavaScript value. Numbers are IEEE doubles in the source; they are
  rationals here, which is exact for every number the handlers compute themselves
  (counters and positions, all small integers). An object is the list of its members,
  each key once, as \<^verbatim>\<open>JSON.parse\<close> builds it.
\<close>

datatype jsval =
    JUndefined
  | JNull
  | JBool bool
  | JNum rat
  | JStr string
  | JArr "jsval list"
  | JObj "(string \<times> jsval) list"

text \<open>JavaScript truthiness, as \<^verbatim>\<open>if (data.error)\<close> and \<^verbatim>\<open>x ? a : b\<close> test it.\<close>

fun truthy :: "jsval \<Rightarrow> bool" where
  "truthy JUndefined = False"
| "truthy JNull = False"
| "truthy (JBool b) = b"
| "truthy (JNum r) = (r \<noteq> 0)"
| "truthy (JStr s) = (s \<noteq> [])"
| "truthy (JArr xs) = True"
| "truthy (JObj kvs) = True"

text \<open>
  Property access \<^verbatim>\<open>data.key\<close>: a TypeError on \<^verbatim>\<open>null\<close> and \<^verbatim>\<open>undefined\<close>, the member or
  \<^verbatim>\<open>undefined\<close> on an object, \<^verbatim>\<open>undefined\<close> on every other value (none of the keys the
  handlers read is a prototype property of a string, number, boolean or array).
\<close>

definition quoted :: "string \<Rightarrow> string" where
  "quoted k = [CHR 0x27] @ k @ [CHR 0x27]"

fun get_prop :: "jsval \<Rightarrow> string \<Rightarrow> string + jsval" where
  "get_prop JNull k = Inl (''Cannot read properties of null (reading '' @ quoted k @ '')'')"
| "get_prop JUndefined k = Inl (''Cannot read properties of undefined (reading '' @ quoted k @ '')'')"
| "get_prop (JObj kvs) k = Inr (case map_of kvs k of None \<Rightarrow> JUndefined | Some v \<Rightarrow> v)"
| "get_prop v k = Inr JUndefined"

text \<open>An optional string argument used as a condition: absent and \<^verbatim>\<open>""\<close> are both falsy.\<close>

fun truthy_str :: "string option \<Rightarrow> bool" where
  "truthy_str None = False"
| "truthy_str (Some s) = (s \<noteq> [])"

text \<open>
  A template hole of the form \<^verbatim>\<open>${arg ? `...${arg}...` : ''}\<close>: it renders the argument when it
  is truthy and nothing otherwise.
\<close>

definition hole :: "string option \<Rightarrow> string option" where
  "hole a = (if truthy_str a then a else None)"

text \<open>The numbers of the source that are numbers at run time: a finite value, NaN or an infinity.\<close>

datatype jsnum = Finite rat | NaN | PosInf | NegInf

fun truthy_num :: "jsnum \<Rightarrow> bool" where
  "truthy_num (Finite r) = (r \<noteq> 0)"
| "truthy_num NaN = False"
| "truthy_num PosInf = True"
| "truthy_num NegInf = True"

text \<open>\<^verbatim>\<open>String.prototype.startsWith\<close>, \<^verbatim>\<open>endsWith\<close> and \<^verbatim>\<open>includes\<close>.\<close>

definition startsWith :: "string \<Rightarrow> string \<Rightarrow> bool" where
  "startsWith s p = (take (length p) s = p)"

definition endsWith :: "string \<Rightarrow> string \<Rightarrow> bool" where
  "endsWith s p = (length p \<le> length s \<and> drop (length s - length p) s = p)"

fun includes_str :: "string \<Rightarrow> string \<Rightarrow> bool" where
  "includes_str [] p = (p = [])"
| "includes_str (c # cs) p = (startsWith (c # cs) p \<or> includes_str cs p)"

text \<open>
  A string is the list of the bytes of its UTF-8 encoding (the child process's output is
  decoded as UTF-8, and the default \<^verbatim>\<open>maxBuffer\<close> of \<^verbatim>\<open>exec\<close> counts bytes).
  \<^verbatim>\<open>String.prototype.trim\<close> removes white space and line terminators from both ends:
  the code points U+0009 to U+000D, U+0020, U+00A0, U+1680, U+2000 to U+200A, U+2028,
  U+2029, U+202F, U+205F, U+3000 and U+FEFF, here as their encodings.
\<close>

definition white_space :: "string list" where
  "white_space =
     [[CHR 0x09], [CHR 0x0A], [CHR 0x0B], [CHR 0x0C], [CHR 0x0D], [CHR 0x20],
      [CHR 0xC2, CHR 0xA0],
      [CHR 0xE1, CHR 0x9A, CHR 0x80],
      [CHR 0xE2, CHR 0x80, CHR 0x80], [CHR 0xE2, CHR 0x80, CHR 0x81],
      [CHR 0xE2, CHR 0x80, CHR 0x82], [CHR 0xE2, CHR 0x80, CHR 0x83],
      [CHR 0xE2, CHR 0x80, CHR 0x84], [CHR 0xE2, CHR 0x80, CHR 0x85],
      [CHR 0xE2, CHR 0x80, CHR 0x86], [CHR 0xE2, CHR 0x80, CHR 0x87],
      [CHR 0xE2, CHR 0x80, CHR 0x88], [CHR 0xE2, CHR 0x80, CHR 0x89],
      [CHR 0xE2, CHR 0x80, CHR 0x8A],
      [CHR 0xE2, CHR 0x80, CHR 0xA8], [CHR 0xE2, CHR 0x80, CHR 0xA9],
      [CHR 0xE2, CHR 0x80, CHR 0xAF],
      [CHR 0xE2, CHR 0x81, CHR 0x9F],
      [CHR 0xE3, CHR 0x80, CHR 0x80],
      [CHR 0xEF, CHR 0xBB, CHR 0xBF]]"

text \<open>Dropping, from the start of a string, every leading occurrence of one of the given words.\<close>

function strip_start :: "string list \<Rightarrow> string \<Rightarrow> string" where
  "strip_start ws s =
     (case find (\<lambda>w. w \<noteq> [] \<and> startsWith s w) ws of
        None \<Rightarrow> s
      | Some w \<Rightarrow> strip_start ws (drop (length w) s))"
  by pat_completeness auto
termination
proof (relation "measure (\<lambda>(ws, s). length s)")
  show "wf (measure (\<lambda>(ws, s). length s))"
    by simp
next
  fix ws :: "string list" and s w :: string
  assume "find (\<lambda>w. w \<noteq> [] \<and> startsWith s w) ws = Some w"
  then have w: "w \<noteq> []" and t: "take (length w) s = w"
    by (auto simp: find_Some_iff startsWith_def)
  from t have "length w = min (length s) (length w)"
    by (metis length_take)
  then have le: "length w \<le> length s"
    by simp
  from w have pos: "0 < length w"
    by simp
  from le pos have "length s - length w < length s"
    by linarith
  then show "((ws, drop (length w) s), (ws, s)) \<in> measure (\<lambda>(ws, s). length s)"
    by simp
qed

declare strip_start.simps [simp del]

definition strip_end :: "string list \<Rightarrow> string \<Rightarrow> string" where
  "strip_end ws s = rev (strip_start (map rev ws) (rev s))"

definition trim :: "string \<Rightarrow> string" where
  "trim s = strip_end white_space (strip_start white_space s)"

text \<open>
  The six ASCII white space characters (tab, line feed, vertical tab, form feed, carriage
  return, space): what Python's \<^verbatim>\<open>int\<close> drops around an ASCII number.
\<close>

definition is_space :: "char \<Rightarrow> bool" where
  "is_space c = (c \<in> set [CHR 0x09, CHR 0x0A, CHR 0x0B, CHR 0x0C, CHR 0x0D, CHR 0x20])"

text \<open>
  A counter or a time stamp inside a template literal: the decimal digits of a
  non-negative integer.
\<close>

definition digit_char :: "nat \<Rightarrow> char" where
  "digit_char d = ''0123456789'' ! d"

fun num_to_string :: "nat \<Rightarrow> string" where
  "num_to_string n =
     (if n < 10 then [digit_char n] else num_to_string (n div 10) @ [digit_char (n mod 10)])"

declare num_to_string.simps [simp del]

text \<open>Reading the digits back, used to show that distinct numbers render differently.\<close>

definition digit_val :: "char \<Rightarrow> nat" where
  "digit_val c = of_char c - 48"

definition digits_val :: "string \<Rightarrow> nat" where
  "digits_val cs = foldl (\<lambda>acc c. 10 * acc + digit_val c) 0 cs"

section \<open>The tracker: windows, tabs, panes\<close>

text \<open>
  A JavaScript \<^verbatim>\<open>Map\<close> iterates in insertion order, and \<^verbatim>\<open>set\<close> on a present key keeps
  the key's place: an association list, updated in place or extended at the end.
\<close>

fun map_set :: "string \<Rightarrow> 'v \<Rightarrow> (string \<times> 'v) list \<Rightarrow> (string \<times> 'v) list" where
  "map_set k v [] = [(k, v)]"
| "map_set k v (p # ps) = (if fst p = k then (k, v) # ps else p # map_set k v ps)"

definition map_has :: "(string \<times> 'v) list \<Rightarrow> string \<Rightarrow> bool" where
  "map_has m k = (map_of m k \<noteq> None)"

definition map_values :: "(string \<times> 'v) list \<Rightarrow> 'v list" where
  "map_values m = map snd m"

text \<open>
  The objects. A \<^verbatim>\<open>PaneInfo\<close> is referenced from the global \<^verbatim>\<open>panes\<close> map and from its
  tab's \<^verbatim>\<open>panes\<close> map, a \<^verbatim>\<open>TabInfo\<close> from the global \<^verbatim>\<open>tabs\<close> map and from its window's
  \<^verbatim>\<open>tabs\<close> map, and both are mutated in place; so they live in a store and the maps hold
  references (indices into the store). A \<^verbatim>\<open>WindowInfo\<close> is referenced once and never
  mutated, and is held by value. The shadow process of a pane and its output buffer
  (\<^verbatim>\<open>process\<close>, \<^verbatim>\<open>output\<close>) and the fields no handler ever assigns (\<^verbatim>\<open>TabInfo.title\<close>,
  \<^verbatim>\<open>WindowInfo.title\<close>, \<^verbatim>\<open>isFullScreen\<close>, \<^verbatim>\<open>frame\<close>) are left out.
\<close>

type_synonym ref = nat

record PaneInfo =
  pane_id :: string
  sessionId :: jsval
  pane_windowId :: string
  pane_tabId :: string
  position_x :: int
  position_y :: int
  isActive :: bool
  title :: jsval
  workingDirectory :: jsval
  foregroundJob :: jsval

record TabInfo =
  tab_id :: string
  tab_windowId :: string
  tab_panes :: "(string \<times> ref) list"
  activePaneId :: "string option"
  color :: "string option"

record WindowInfo =
  window_id :: string
  window_tabs :: "(string \<times> ref) list"
  activeTabId :: "string option"

section \<open>Scripts, effects and the environment\<close>

text \<open>
  Every script is a template literal with holes; a script is kept as its template (the
  constructor) and the values of its holes. Holes of the form \<^verbatim>\<open>${x ? ... : ''}\<close> hold
  \<open>hole x\<close>.
  \<^item> \<open>OpenTerminalScript profile workingDirectory command windowId tabId paneId\<close>
  \<^item> \<open>SplitScript vertical sessionId profile command newPaneId\<close>
  \<^item> \<open>ExecuteScript sessionId command\<close>, the command with its double quotes escaped
  \<^item> \<open>SessionInfoScript sessionId\<close>, \<open>SessionDetailsScript sessionId\<close>
  \<^item> \<open>TabColorScript sessionId color\<close>
  \<^item> \<open>ListSessionsScript\<close>
  \<^item> \<open>MonitorScript sessionId duration\<close>
  \<^item> \<open>BroadcastScript sessionIds command\<close>, the command with its double quotes escaped
\<close>

datatype script =
    OpenTerminalScript "string option" "string option" "string option" string string string
  | SplitScript bool jsval "string option" "string option" string
  | ExecuteScript jsval string
  | SessionInfoScript jsval
  | SessionDetailsScript string
  | TabColorScript jsval string
  | ListSessionsScript
  | MonitorScript jsval jsnum
  | BroadcastScript "jsval list" string

text \<open>\<^verbatim>\<open>command.replace(/"/g, '\\"')\<close>: a backslash before every double quote.\<close>

definition escape_quotes :: "string \<Rightarrow> string" where
  "escape_quotes s = concat (map (\<lambda>c. if c = CHR 0x22 then [CHR 0x5C, CHR 0x22] else [c]) s)"

text \<open>
  What a call does to the world outside the tracker: its calls of \<^verbatim>\<open>writeFileSync\<close>,
  \<^verbatim>\<open>exec\<close> and \<^verbatim>\<open>unlinkSync\<close> on a script file (the effects, in order), the contents of
  the \<^verbatim>\<open>python_scripts\<close> directory, and the lines it writes with \<^verbatim>\<open>console.error\<close>.
\<close>

datatype effect = WriteFile string script | Exec string | Unlink string

datatype logline = PythonScriptStderr string | PythonScriptError string

text \<open>
  An entry of the script directory: its modification time in milliseconds, and whether
  \<^verbatim>\<open>statSync\<close> and \<^verbatim>\<open>unlinkSync\<close> throw on it.
\<close>

record entry =
  mtime :: nat
  stat_throws :: bool
  unlink_throws :: bool

record state =
  windows :: "(string \<times> WindowInfo) list"
  tabs :: "(string \<times> ref) list"
  panes :: "(string \<times> ref) list"
  paneObjs :: "PaneInfo list"
  tabObjs :: "TabInfo list"
  windowCounter :: nat
  tabCounter :: nat
  paneCounter :: nat
  files :: "(string \<times> entry) list"
  effects :: "effect list"
  console :: "logline list"

text \<open>The state after the module's top-level statements, on an empty script directory.\<close>

definition initial :: state where
  "initial = \<lparr> windows = [], tabs = [], panes = [], paneObjs = [], tabObjs = [],
               windowCounter = 0, tabCounter = 0, paneCounter = 0,
               files = [], effects = [], console = [] \<rparr>"

text \<open>
  What the outside gives one call: the clock (\<^verbatim>\<open>Date.now()\<close>, in milliseconds), how the
  child process ends if it is started, the message of the error \<^verbatim>\<open>exec\<close> rejects with when
  it rejects, and \<^verbatim>\<open>JSON.parse\<close> (\<open>Inl\<close> the message of its SyntaxError).
  The child process ends by exiting with a code, its standard output and standard error
  captured; or it is killed (the 35 second timeout of \<^verbatim>\<open>exec\<close>); or it never starts.
  The inner \<^verbatim>\<open>timeout 30\<close> ends the process with a non-zero exit code. \<open>Exited\<close> gives
  the code and the two outputs of a process left to run to its end.
\<close>

datatype proc_outcome = Exited nat string string | Killed | SpawnFailed

record env =
  now :: nat
  proc :: proc_outcome
  rejection :: string
  JSON_parse :: "string \<Rightarrow> string + jsval"

text \<open>
  The promisified \<^verbatim>\<open>exec\<close>, called with a timeout and no \<^verbatim>\<open>maxBuffer\<close>: the default of
  1024 * 1024 bytes applies, and a process whose standard output or standard error grows
  beyond it is killed and the promise rejects. The promise resolves with both outputs
  exactly when the process exits with code zero within that limit.
\<close>

definition maxBuffer :: nat where
  "maxBuffer = 1024 * 1024"

definition execPromise :: "env \<Rightarrow> string + (string \<times> string)" where
  "execPromise e =
     (case proc e of
        Exited code out err \<Rightarrow>
          if code = 0 \<and> length out \<le> maxBuffer \<and> length err \<le> maxBuffer then Inr (out, err)
          else Inl (rejection e)
      | Killed \<Rightarrow> Inl (rejection e)
      | SpawnFailed \<Rightarrow> Inl (rejection e))"

section \<open>The bridge\<close>

text \<open>
  The script directory is a list of entries by name. \<^verbatim>\<open>statSync\<close> and \<^verbatim>\<open>unlinkSync\<close>
  throw on an entry that says so (a permission, an immutable flag, a name that another
  process has removed since the listing). Both also throw on a
  name that is not there; \<open>None\<close> is the exception. \<^verbatim>\<open>writeFileSync\<close> is taken to succeed:
  it creates an entry that can be read and removed, or gives an existing entry a new
  content and time.
\<close>

definition writeFileSync :: "string \<Rightarrow> nat \<Rightarrow> (string \<times> entry) list \<Rightarrow> (string \<times> entry) list" where
  "writeFileSync path t fs =
     map_set path
       (case map_of fs path of
          None \<Rightarrow> \<lparr> mtime = t, stat_throws = False, unlink_throws = False \<rparr>
        | Some en \<Rightarrow> en\<lparr> mtime := t \<rparr>)
       fs"

definition statSync :: "string \<Rightarrow> (string \<times> entry) list \<Rightarrow> nat option" where
  "statSync path fs =
     (case map_of fs path of
        None \<Rightarrow> None
      | Some en \<Rightarrow> if stat_throws en then None else Some (mtime en))"

definition unlinkSync :: "string \<Rightarrow> (string \<times> entry) list \<Rightarrow> (string \<times> entry) list option" where
  "unlinkSync path fs =
     (case map_of fs path of
        None \<Rightarrow> None
      | Some en \<Rightarrow> if unlink_throws en then None else Some (filter (\<lambda>p. fst p \<noteq> path) fs))"

definition readdirSync :: "(string \<times> entry) list \<Rightarrow> string list" where
  "readdirSync fs = map fst fs"

text \<open>
  \<^verbatim>\<open>cleanupOldScripts\<close>: the loop over the directory listing. An exception of \<^verbatim>\<open>statSync\<close>
  or \<^verbatim>\<open>unlinkSync\<close> leaves the loop: the \<^verbatim>\<open>try\<close> is around the whole loop, and its
  \<^verbatim>\<open>catch\<close> ignores the error.
\<close>

fun cleanup_loop :: "nat \<Rightarrow> string list \<Rightarrow> (string \<times> entry) list \<Rightarrow> (string \<times> entry) list" where
  "cleanup_loop t [] fs = fs"
| "cleanup_loop t (file # rest) fs =
     (if startsWith file ''iterm_script_'' \<and> endsWith file ''.py'' then
        (case statSync file fs of
           None \<Rightarrow> fs
         | Some modified \<Rightarrow>
             if int t - int modified > 300000 then
               (case unlinkSync file fs of
                  None \<Rightarrow> fs
                | Some fs' \<Rightarrow> cleanup_loop t rest fs')
             else cleanup_loop t rest fs)
      else cleanup_loop t rest fs)"

definition cleanupOldScripts :: "nat \<Rightarrow> (string \<times> entry) list \<Rightarrow> (string \<times> entry) list" where
  "cleanupOldScripts t fs = cleanup_loop t (readdirSync fs) fs"

definition scriptPath :: "env \<Rightarrow> string" where
  "scriptPath e = ''iterm_script_'' @ num_to_string (now e) @ ''.py''"

text \<open>
  \<^verbatim>\<open>executeITermPythonScript\<close>: write the script, run it, log, and remove the script in the
  \<^verbatim>\<open>finally\<close> block; when the removal throws, the error is ignored and the file stays.
  \<open>Inr\<close> is the returned string, \<open>Inl\<close> the message of the thrown error.
\<close>

definition executeITermPythonScript :: "env \<Rightarrow> script \<Rightarrow> state \<Rightarrow> (string + string) \<times> state" where
  "executeITermPythonScript e scriptContent s =
     (let path = scriptPath e;
          s1 = s\<lparr> files := writeFileSync path (now e) (files s),
                  effects := effects s @ [WriteFile path scriptContent] \<rparr>;
          s2 = s1\<lparr> effects := effects s1 @ [Exec path] \<rparr>;
          (r, s3) =
            (case execPromise e of
               Inr (stdout, stderr) \<Rightarrow>
                 (Inr (trim stdout),
                  if stderr \<noteq> [] \<and> \<not> includes_str stderr ''Warning''
                  then s2\<lparr> console := console s2 @ [PythonScriptStderr stderr] \<rparr>
                  else s2)
             | Inl message \<Rightarrow>
                 (Inl (''Python execution failed: '' @ message),
                  s2\<lparr> console := console s2 @ [PythonScriptError message] \<rparr>));
          s4 = (case unlinkSync path (files s3) of
                  None \<Rightarrow> s3\<lparr> effects := effects s3 @ [Unlink path] \<rparr>
                | Some fs \<Rightarrow> s3\<lparr> files := fs, effects := effects s3 @ [Unlink path] \<rparr>)
      in (r, s4))"

text \<open>
  The first two statements of every handler's \<^verbatim>\<open>try\<close> block: run the script and parse
  what it printed. \<open>Inl\<close> is the \<^verbatim>\<open>message\<close> of the error the \<^verbatim>\<open>catch\<close> block receives.
\<close>

definition call_bridge :: "env \<Rightarrow> script \<Rightarrow> state \<Rightarrow> (string + jsval) \<times> state" where
  "call_bridge e scriptContent s =
     (case executeITermPythonScript e scriptContent s of
        (Inl message, s') \<Rightarrow> (Inl message, s')
      | (Inr result, s') \<Rightarrow> (JSON_parse e result, s'))"

section \<open>The tool handlers\<close>

text \<open>
  A handler returns a response (\<open>Inr\<close>) or throws (\<open>Inl\<close>). A response text built from
  strings alone is \<open>Text\<close>; a text with a hole for a JavaScript value is kept as its
  template and the values of its holes:
  \<^item> \<open>TerminalOpened windowId tabId paneId data.sessionId\<close>
  \<^item> \<open>ErrorText data.error\<close>, the text \<^verbatim>\<open>Error: ${data.error}\<close>
  \<^item> \<open>PaneSplit vertical newPaneId data.newSessionId\<close>
  \<^item> \<open>SessionInformation paneId data\<close>, \<open>SessionDetails sessionId data\<close>
  \<^item> \<open>SessionsOverview data\<close>, \<open>MonitoringResults paneId data\<close>
  \<^item> \<open>BroadcastResults command data.total_panes data.broadcast_results\<close>
  \<^item> \<open>PaneList panes.size rows\<close>, a row being the id, window, tab, session, position and
    active flag of a pane
  \<^item> \<open>TerminalState windows.size tabs.size panes.size details\<close>
\<close>

datatype response =
    Text string
  | TerminalOpened string string string jsval
  | ErrorText jsval
  | PaneSplit bool string jsval
  | SessionInformation string jsval
  | SessionDetails string jsval
  | SessionsOverview jsval
  | MonitoringResults string jsval
  | BroadcastResults string jsval jsval
  | PaneList nat "(string \<times> string \<times> string \<times> jsval \<times> int \<times> int \<times> bool) list"
  | TerminalState nat nat nat
      "(string \<times> string option \<times> (string \<times> string option \<times> string list) list) list"

datatype thrown = Error string

text \<open>\<^verbatim>\<open>window-${windowCounter++}\<close>, \<^verbatim>\<open>tab-${tabCounter++}\<close>, \<^verbatim>\<open>pane-${paneCounter++}\<close>.\<close>

definition allocWindowId :: "state \<Rightarrow> string \<times> state" where
  "allocWindowId s =
     (''window-'' @ num_to_string (windowCounter s), s\<lparr> windowCounter := windowCounter s + 1 \<rparr>)"

definition allocTabId :: "state \<Rightarrow> string \<times> state" where
  "allocTabId s = (''tab-'' @ num_to_string (tabCounter s), s\<lparr> tabCounter := tabCounter s + 1 \<rparr>)"

definition allocPaneId :: "state \<Rightarrow> string \<times> state" where
  "allocPaneId s =
     (''pane-'' @ num_to_string (paneCounter s), s\<lparr> paneCounter := paneCounter s + 1 \<rparr>)"

definition opt_jsval :: "string option \<Rightarrow> jsval" where
  "opt_jsval a = (case a of None \<Rightarrow> JUndefined | Some x \<Rightarrow> JStr x)"

text \<open>
  A property read that follows a successful read of the same value: it cannot throw, the
  value being neither \<^verbatim>\<open>null\<close> nor \<^verbatim>\<open>undefined\<close>.
\<close>

definition read_prop :: "jsval \<Rightarrow> string \<Rightarrow> jsval" where
  "read_prop d k = (case get_prop d k of Inl _ \<Rightarrow> JUndefined | Inr v \<Rightarrow> v)"

subsection \<open>open-terminal\<close>

definition open_terminal ::
  "env \<Rightarrow> string option \<Rightarrow> string option \<Rightarrow> string option \<Rightarrow> state \<Rightarrow> (thrown + response) \<times> state" where
  "open_terminal e profile command workingDir s0 =
     (let (windowId, s1) = allocWindowId s0;
          (tabId, s2) = allocTabId s1;
          (paneId, s3) = allocPaneId s2;
          scriptContent =
            OpenTerminalScript (hole profile) (hole workingDir) (hole command) windowId tabId paneId
      in case call_bridge e scriptContent s3 of
           (Inl message, s4) \<Rightarrow> (Inl (Error (''Failed to create terminal: '' @ message)), s4)
         | (Inr data, s4) \<Rightarrow>
             (case get_prop data ''sessionId'' of
                Inl message \<Rightarrow> (Inl (Error (''Failed to create terminal: '' @ message)), s4)
              | Inr sid \<Rightarrow>
                  (let pane = \<lparr> pane_id = paneId, sessionId = sid, pane_windowId = windowId,
                                pane_tabId = tabId, position_x = 0, position_y = 0,
                                isActive = True, title = JUndefined,
                                workingDirectory = opt_jsval workingDir,
                                foregroundJob = JUndefined \<rparr>;
                       paneRef = length (paneObjs s4);
                       tab = \<lparr> tab_id = tabId, tab_windowId = windowId,
                               tab_panes = [(paneId, paneRef)], activePaneId = Some paneId,
                               color = None \<rparr>;
                       tabRef = length (tabObjs s4);
                       window = \<lparr> window_id = windowId, window_tabs = [(tabId, tabRef)],
                                  activeTabId = Some tabId \<rparr>;
                       s5 = s4\<lparr> paneObjs := paneObjs s4 @ [pane],
                                tabObjs := tabObjs s4 @ [tab],
                                panes := map_set paneId paneRef (panes s4),
                                tabs := map_set tabId tabRef (tabs s4),
                                windows := map_set windowId window (windows s4) \<rparr>
                   in (Inr (TerminalOpened windowId tabId paneId sid), s5))))"

subsection \<open>split-terminal-horizontal and split-terminal-vertical\<close>

text \<open>
  The target of a split: the pane named by a truthy \<^verbatim>\<open>paneId\<close>, else the first pane of
  \<^verbatim>\<open>panes.values()\<close> whose \<^verbatim>\<open>isActive\<close> is set. \<open>Inl\<close> is the response returned when
  there is none.
\<close>

definition resolveTarget :: "string option \<Rightarrow> state \<Rightarrow> response + ref" where
  "resolveTarget paneId s =
     (case hole paneId of
        Some pid \<Rightarrow>
          (case map_of (panes s) pid of
             None \<Rightarrow> Inl (Text (''Pane '' @ pid @ '' not found''))
           | Some r \<Rightarrow> Inr r)
      | None \<Rightarrow>
          (case filter (\<lambda>r. isActive (paneObjs s ! r)) (map_values (panes s)) of
             [] \<Rightarrow> Inl (Text ''No active pane found'')
           | r # _ \<Rightarrow> Inr r))"

definition split_word :: "bool \<Rightarrow> string" where
  "split_word vertical = (if vertical then ''vertically'' else ''horizontally'')"

text \<open>
  The two handlers are the same text up to the orientation: the \<^verbatim>\<open>vertical=\<close> argument of
  the script, the coordinate that is advanced, and the word in the messages.
\<close>

definition split_terminal ::
  "bool \<Rightarrow> env \<Rightarrow> string option \<Rightarrow> string option \<Rightarrow> string option \<Rightarrow> state
     \<Rightarrow> (thrown + response) \<times> state" where
  "split_terminal vertical e paneId profile command s0 =
     (case resolveTarget paneId s0 of
        Inl resp \<Rightarrow> (Inr resp, s0)
      | Inr target \<Rightarrow>
          (let (newPaneId, s1) = allocPaneId s0;
               targetPane = paneObjs s1 ! target;
               scriptContent =
                 SplitScript vertical (sessionId targetPane) (hole profile) (hole command) newPaneId;
               failed = (\<lambda>message. Error (''Failed to split pane '' @ split_word vertical @ '': '' @ message))
           in case call_bridge e scriptContent s1 of
                (Inl message, s2) \<Rightarrow> (Inl (failed message), s2)
              | (Inr data, s2) \<Rightarrow>
                  (case get_prop data ''error'' of
                     Inl message \<Rightarrow> (Inl (failed message), s2)
                   | Inr err \<Rightarrow>
                       if truthy err then (Inr (ErrorText err), s2)
                       else
                         (let newPane =
                                \<lparr> pane_id = newPaneId, sessionId = read_prop data ''newSessionId'',
                                  pane_windowId = pane_windowId targetPane,
                                  pane_tabId = pane_tabId targetPane,
                                  position_x = (if vertical then position_x targetPane + 1
                                                else position_x targetPane),
                                  position_y = (if vertical then position_y targetPane
                                                else position_y targetPane + 1),
                                  isActive = True, title = JUndefined,
                                  workingDirectory = JUndefined, foregroundJob = JUndefined \<rparr>
                          in case map_of (tabs s2) (pane_tabId targetPane) of
                               None \<Rightarrow>
                                 (Inl (failed (''Cannot read properties of undefined (reading ''
                                                @ quoted ''panes'' @ '')'')), s2)
                             | Some tabRef \<Rightarrow>
                                 (let newRef = length (paneObjs s2);
                                      tab = tabObjs s2 ! tabRef;
                                      s3 = s2\<lparr> tabObjs := (tabObjs s2)
                                                 [tabRef := tab\<lparr> tab_panes :=
                                                    map_set newPaneId newRef (tab_panes tab) \<rparr>],
                                               paneObjs := paneObjs s2 @ [newPane],
                                               panes := map_set newPaneId newRef (panes s2) \<rparr>;
                                      s4 = s3\<lparr> paneObjs := (paneObjs s3)
                                                 [target := (paneObjs s3 ! target)\<lparr> isActive := False \<rparr>] \<rparr>
                                  in (Inr (PaneSplit vertical newPaneId (read_prop data ''newSessionId'')),
                                      s4))))))"

definition split_terminal_horizontal ::
  "env \<Rightarrow> string option \<Rightarrow> string option \<Rightarrow> string option \<Rightarrow> state \<Rightarrow> (thrown + response) \<times> state" where
  "split_terminal_horizontal = split_terminal False"

definition split_terminal_vertical ::
  "env \<Rightarrow> string option \<Rightarrow> string option \<Rightarrow> string option \<Rightarrow> state \<Rightarrow> (thrown + response) \<times> state" where
  "split_terminal_vertical = split_terminal True"

subsection \<open>The handlers that look one pane up\<close>

definition execute_command_in_pane :: "env \<Rightarrow> string \<Rightarrow> string \<Rightarrow> state \<Rightarrow> (thrown + response) \<times> state" where
  "execute_command_in_pane e paneId command s0 =
     (case map_of (panes s0) paneId of
        None \<Rightarrow> (Inr (Text (''Pane '' @ paneId @ '' not found'')), s0)
      | Some r \<Rightarrow>
          (let pane = paneObjs s0 ! r;
               failed = (\<lambda>message. Text (''Failed to execute command in pane '' @ paneId @ '': '' @ message))
           in case call_bridge e (ExecuteScript (sessionId pane) (escape_quotes command)) s0 of
                (Inl message, s1) \<Rightarrow> (Inr (failed message), s1)
              | (Inr data, s1) \<Rightarrow>
                  (case get_prop data ''error'' of
                     Inl message \<Rightarrow> (Inr (failed message), s1)
                   | Inr err \<Rightarrow>
                       if truthy err then (Inr (ErrorText err), s1)
                       else (Inr (Text (''Command executed in pane '' @ paneId @ '': '' @ command)), s1))))"

definition get_session_info :: "env \<Rightarrow> string \<Rightarrow> state \<Rightarrow> (thrown + response) \<times> state" where
  "get_session_info e paneId s0 =
     (case map_of (panes s0) paneId of
        None \<Rightarrow> (Inr (Text (''Pane '' @ paneId @ '' not found'')), s0)
      | Some r \<Rightarrow>
          (let pane = paneObjs s0 ! r;
               failed = (\<lambda>message. Text (''Failed to get session info: '' @ message))
           in case call_bridge e (SessionInfoScript (sessionId pane)) s0 of
                (Inl message, s1) \<Rightarrow> (Inr (failed message), s1)
              | (Inr data, s1) \<Rightarrow>
                  (case get_prop data ''error'' of
                     Inl message \<Rightarrow> (Inr (failed message), s1)
                   | Inr err \<Rightarrow>
                       if truthy err then (Inr (ErrorText err), s1)
                       else
                         (let s2 = s1\<lparr> paneObjs := (paneObjs s1)
                                      [r := (paneObjs s1 ! r)
                                         \<lparr> title := read_prop data ''title'',
                                           workingDirectory := read_prop data ''working_directory'',
                                           foregroundJob := read_prop data ''foreground_job'' \<rparr>] \<rparr>
                          in (Inr (SessionInformation paneId data), s2)))))"

definition get_session_details :: "env \<Rightarrow> string \<Rightarrow> state \<Rightarrow> (thrown + response) \<times> state" where
  "get_session_details e sid s0 =
     (let failed = (\<lambda>message. Text (''Failed to read session content: '' @ message))
      in case call_bridge e (SessionDetailsScript sid) s0 of
           (Inl message, s1) \<Rightarrow> (Inr (failed message), s1)
         | (Inr data, s1) \<Rightarrow>
             (case get_prop data ''error'' of
                Inl message \<Rightarrow> (Inr (failed message), s1)
              | Inr err \<Rightarrow>
                  if truthy err then (Inr (ErrorText err), s1)
                  else (Inr (SessionDetails sid data), s1)))"

definition set_tab_color :: "env \<Rightarrow> string \<Rightarrow> string \<Rightarrow> state \<Rightarrow> (thrown + response) \<times> state" where
  "set_tab_color e paneId col s0 =
     (case map_of (panes s0) paneId of
        None \<Rightarrow> (Inr (Text (''Pane '' @ paneId @ '' not found'')), s0)
      | Some r \<Rightarrow>
          (let pane = paneObjs s0 ! r;
               failed = (\<lambda>message. Text (''Failed to set tab color: '' @ message))
           in case call_bridge e (TabColorScript (sessionId pane) col) s0 of
                (Inl message, s1) \<Rightarrow> (Inr (failed message), s1)
              | (Inr data, s1) \<Rightarrow>
                  (case get_prop data ''error'' of
                     Inl message \<Rightarrow> (Inr (failed message), s1)
                   | Inr err \<Rightarrow>
                       if truthy err then (Inr (ErrorText err), s1)
                       else
                         (case map_of (tabs s1) (pane_tabId (paneObjs s1 ! r)) of
                            None \<Rightarrow>
                              (Inr (failed (''Cannot set properties of undefined (setting ''
                                            @ quoted ''color'' @ '')'')), s1)
                          | Some tabRef \<Rightarrow>
                              (let s2 = s1\<lparr> tabObjs := (tabObjs s1)
                                           [tabRef := (tabObjs s1 ! tabRef)\<lparr> color := Some col \<rparr>] \<rparr>
                               in (Inr (Text (''Tab color set to '' @ col @ '' for pane '' @ paneId)),
                                   s2))))))"

definition list_all_sessions :: "env \<Rightarrow> state \<Rightarrow> (thrown + response) \<times> state" where
  "list_all_sessions e s0 =
     (let failed = (\<lambda>message. Text (''Failed to list sessions: '' @ message))
      in case call_bridge e ListSessionsScript s0 of
           (Inl message, s1) \<Rightarrow> (Inr (failed message), s1)
         | (Inr data, s1) \<Rightarrow>
             (case get_prop data ''error'' of
                Inl message \<Rightarrow> (Inr (failed message), s1)
              | Inr err \<Rightarrow>
                  if truthy err then (Inr (ErrorText err), s1)
                  else (Inr (SessionsOverview data), s1)))"

text \<open>
  \<^verbatim>\<open>duration || 10\<close>, on the handler's \<^verbatim>\<open>duration?: number\<close>: the left operand when it is
  truthy, else 10.
\<close>

definition duration_or_10 :: "jsnum option \<Rightarrow> jsnum" where
  "duration_or_10 duration =
     (case duration of
        None \<Rightarrow> Finite 10
      | Some d \<Rightarrow> if truthy_num d then d else Finite 10)"

definition monitor_session :: "env \<Rightarrow> string \<Rightarrow> jsnum option \<Rightarrow> state \<Rightarrow> (thrown + response) \<times> state" where
  "monitor_session e paneId duration s0 =
     (case map_of (panes s0) paneId of
        None \<Rightarrow> (Inr (Text (''Pane '' @ paneId @ '' not found'')), s0)
      | Some r \<Rightarrow>
          (let pane = paneObjs s0 ! r;
               failed = (\<lambda>message. Text (''Failed to monitor session: '' @ message))
           in case call_bridge e (MonitorScript (sessionId pane) (duration_or_10 duration)) s0 of
                (Inl message, s1) \<Rightarrow> (Inr (failed message), s1)
              | (Inr data, s1) \<Rightarrow>
                  (case get_prop data ''error'' of
                     Inl message \<Rightarrow> (Inr (failed message), s1)
                   | Inr err \<Rightarrow>
                       if truthy err then (Inr (ErrorText err), s1)
                       else (Inr (MonitoringResults paneId data), s1))))"

subsection \<open>broadcast-input\<close>

definition broadcast_input :: "env \<Rightarrow> string list \<Rightarrow> string \<Rightarrow> state \<Rightarrow> (thrown + response) \<times> state" where
  "broadcast_input e paneIds command s0 =
     (let validPanes = filter (\<lambda>i. map_has (panes s0) i) paneIds
      in if length validPanes = 0 then (Inr (Text ''No valid panes found''), s0)
         else
           (let sessionIds = map (\<lambda>i. sessionId (paneObjs s0 ! the (map_of (panes s0) i))) validPanes;
                failed = (\<lambda>message. Text (''Failed to broadcast input: '' @ message))
            in case call_bridge e (BroadcastScript sessionIds (escape_quotes command)) s0 of
                 (Inl message, s1) \<Rightarrow> (Inr (failed message), s1)
               | (Inr data, s1) \<Rightarrow>
                   (case get_prop data ''total_panes'' of
                      Inl message \<Rightarrow> (Inr (failed message), s1)
                    | Inr totalPanes \<Rightarrow>
                        (Inr (BroadcastResults command totalPanes (read_prop data ''broadcast_results'')), s1))))"

subsection \<open>list-panes and get-terminal-state\<close>

definition list_panes :: "state \<Rightarrow> (thrown + response) \<times> state" where
  "list_panes s =
     (Inr (PaneList (length (panes s))
        (map (\<lambda>(i, r). let pane = paneObjs s ! r in
                (i, pane_windowId pane, pane_tabId pane, sessionId pane,
                 position_x pane, position_y pane, isActive pane))
           (panes s))), s)"

definition get_terminal_state :: "state \<Rightarrow> (thrown + response) \<times> state" where
  "get_terminal_state s =
     (Inr (TerminalState (length (windows s)) (length (tabs s)) (length (panes s))
        (map (\<lambda>(windowId, window).
                (windowId, activeTabId window,
                 map (\<lambda>(tabId, tabRef). let tab = tabObjs s ! tabRef in
                        (tabId, activePaneId tab, map fst (tab_panes tab)))
                   (window_tabs window)))
           (windows s))), s)"

subsection \<open>The tool surface\<close>

datatype call =
    OpenTerminal "string option" "string option" "string option"
  | SplitTerminalHorizontal "string option" "string option" "string option"
  | SplitTerminalVertical "string option" "string option" "string option"
  | ExecuteCommandInPane string string
  | GetSessionInfo string
  | GetSessionDetails string
  | SetTabColor string string
  | ListAllSessions
  | MonitorSession string "jsnum option"
  | BroadcastInput "string list" string
  | ListPanes
  | GetTerminalState

fun dispatch :: "env \<Rightarrow> call \<Rightarrow> state \<Rightarrow> (thrown + response) \<times> state" where
  "dispatch e (OpenTerminal profile command workingDir) s = open_terminal e profile command workingDir s"
| "dispatch e (SplitTerminalHorizontal paneId profile command) s =
     split_terminal_horizontal e paneId profile command s"
| "dispatch e (SplitTerminalVertical paneId profile command) s =
     split_terminal_vertical e paneId profile command s"
| "dispatch e (ExecuteCommandInPane paneId command) s = execute_command_in_pane e paneId command s"
| "dispatch e (GetSessionInfo paneId) s = get_session_info e paneId s"
| "dispatch e (GetSessionDetails sid) s = get_session_details e sid s"
| "dispatch e (SetTabColor paneId col) s = set_tab_color e paneId col s"
| "dispatch e ListAllSessions s = list_all_sessions e s"
| "dispatch e (MonitorSession paneId duration) s = monitor_session e paneId duration s"
| "dispatch e (BroadcastInput paneIds command) s = broadcast_input e paneIds command s"
| "dispatch e ListPanes s = list_panes s"
| "dispatch e GetTerminalState s = get_terminal_state s"

text \<open>A run of calls, each with what the outside gives it; the responses and the last state.\<close>

fun run :: "(env \<times> call) list \<Rightarrow> state \<Rightarrow> (thrown + response) list \<times> state" where
  "run [] s = ([], s)"
| "run ((e, c) # rest) s =
     (let (r, s') = dispatch e c s; (rs, s'') = run rest s' in (r # rs, s''))"

section \<open>The Python of the scripts\<close>

text \<open>
  Two of the claims are about what the Python inside a script computes: the colour of
  \<^verbatim>\<open>set-tab-color\<close> and the result list of \<^verbatim>\<open>broadcast-input\<close>.
\<close>

subsection \<open>The colour of set-tab-color\<close>

text \<open>
  The handler writes \<^verbatim>\<open>color_value = "${color}"\<close> into the script. That line is the Python
  literal of the same string when the string has no double quote, backslash, line break
  or NUL in it; the model is further restricted to ASCII, where \<^verbatim>\<open>str.lower\<close> maps the
  letters A to Z and nothing else. Any other argument is outside the model (\<open>None\<close>).
\<close>

definition plain_char :: "char \<Rightarrow> bool" where
  "plain_char c =
     ((of_char c :: nat) < 128 \<and> c \<notin> set [CHR 0x00, CHR 0x0A, CHR 0x0D, CHR 0x22, CHR 0x5C])"

definition color_value :: "string \<Rightarrow> string option" where
  "color_value col = (if list_all plain_char col then Some col else None)"

definition lower_char :: "char \<Rightarrow> char" where
  "lower_char c =
     (case map_of (zip ''ABCDEFGHIJKLMNOPQRSTUVWXYZ'' ''abcdefghijklmnopqrstuvwxyz'') c of
        None \<Rightarrow> c
      | Some l \<Rightarrow> l)"

definition lower :: "string \<Rightarrow> string" where
  "lower s = map lower_char s"

definition hex_digit :: "char \<Rightarrow> nat option" where
  "hex_digit c =
     map_of (zip ''0123456789abcdefABCDEF''
               [0, 1, 2, 3, 4, 5, 6, 7, 8, 9, 10, 11, 12, 13, 14, 15, 10, 11, 12, 13, 14, 15]) c"

fun hex_digits :: "nat \<Rightarrow> string \<Rightarrow> nat option" where
  "hex_digits acc [] = Some acc"
| "hex_digits acc (c # cs) =
     (case hex_digit c of None \<Rightarrow> None | Some d \<Rightarrow> hex_digits (16 * acc + d) cs)"

datatype pyerror = ValueError

text \<open>
  \<^verbatim>\<open>int(s, 16)\<close> on a slice of at most two ASCII characters: white space around the
  number is dropped (the six characters of \<open>is_space\<close>), a sign may come first, and at
  least one hexadecimal digit must follow. The prefix \<^verbatim>\<open>0x\<close> and the underscore need three
  characters to be accepted, so they do not arise.
\<close>

definition py_strip :: "string \<Rightarrow> string" where
  "py_strip s = rev (dropWhile is_space (rev (dropWhile is_space s)))"

definition unsigned16 :: "string \<Rightarrow> pyerror + int" where
  "unsigned16 ds =
     (if ds = [] then Inl ValueError
      else case hex_digits 0 ds of None \<Rightarrow> Inl ValueError | Some n \<Rightarrow> Inr (int n))"

definition int16 :: "string \<Rightarrow> pyerror + int" where
  "int16 s =
     (case py_strip s of
        [] \<Rightarrow> Inl ValueError
      | c # cs \<Rightarrow>
          if c = CHR ''+'' then unsigned16 cs
          else if c = CHR ''-'' then map_sum id uminus (unsigned16 cs)
          else unsigned16 (c # cs))"

text \<open>\<^verbatim>\<open>int(hex_color[i:i+2], 16) / 255.0\<close>, the quotient as a rational.\<close>

definition channel :: "string \<Rightarrow> nat \<Rightarrow> pyerror + rat" where
  "channel hex_color i = map_sum id (\<lambda>n. of_int n / 255) (int16 (take 2 (drop i hex_color)))"

definition color_map :: "(string \<times> rat \<times> rat \<times> rat) list" where
  "color_map =
     [(''red'', (1, 0, 0)),
      (''green'', (0, 1, 0)),
      (''blue'', (0, 0, 1)),
      (''yellow'', (1, 1, 0)),
      (''purple'', (1, 0, 1)),
      (''cyan'', (0, 1, 1)),
      (''orange'', (1, 1 / 2, 0)),
      (''pink'', (1, 7 / 10, 8 / 10))]"

text \<open>The branch of the script that builds \<^verbatim>\<open>color_obj\<close>; \<open>Inl\<close> is the exception it raises.\<close>

definition color_obj :: "string \<Rightarrow> pyerror + rat \<times> rat \<times> rat" where
  "color_obj cv =
     (if startsWith cv ''#'' then
        (let hex_color = drop 1 cv in
         case channel hex_color 0 of
           Inl err \<Rightarrow> Inl err
         | Inr r \<Rightarrow>
             (case channel hex_color 2 of
                Inl err \<Rightarrow> Inl err
              | Inr g \<Rightarrow>
                  (case channel hex_color 4 of
                     Inl err \<Rightarrow> Inl err
                   | Inr b \<Rightarrow> Inr (r, g, b))))
      else
        (case map_of color_map (lower cv) of
           None \<Rightarrow> Inr (1 / 2, 1 / 2, 1 / 2)
         | Some c \<Rightarrow> Inr c))"

text \<open>The colour the script of \<^verbatim>\<open>set-tab-color\<close> computes from the handler's argument.\<close>

definition tab_color :: "string \<Rightarrow> (pyerror + rat \<times> rat \<times> rat) option" where
  "tab_color col = map_option color_obj (color_value col)"

subsection \<open>The result list of broadcast-input\<close>

text \<open>
  The script collects the sessions of the application whose identifier is in
  \<^verbatim>\<open>session_ids\<close>, sends the command to each, and prints one result per session it sent to.
  \<open>live\<close> lists the identifiers of the application's sessions in the order the three
  nested loops visit them; \<open>send\<close> says how \<^verbatim>\<open>async_send_text\<close> ends on a session
  (\<open>None\<close>: it returns; \<open>Some m\<close>: it raises an exception whose text is \<open>m\<close>).
\<close>

definition broadcast_result :: "(string \<Rightarrow> string option) \<Rightarrow> string \<Rightarrow> jsval" where
  "broadcast_result send sid =
     (case send sid of
        None \<Rightarrow> JObj [(''session_id'', JStr sid), (''success'', JBool True)]
      | Some m \<Rightarrow> JObj [(''session_id'', JStr sid), (''success'', JBool False), (''error'', JStr m)])"

definition broadcast_payload :: "string list \<Rightarrow> (string \<Rightarrow> string option) \<Rightarrow> jsval list \<Rightarrow> jsval" where
  "broadcast_payload live send session_ids =
     (let target_sessions = filter (\<lambda>sid. JStr sid \<in> set session_ids) live;
          results = map (broadcast_result send) target_sessions
      in JObj [(''success'', JBool True),
               (''broadcast_results'', JArr results),
               (''total_panes'', JNum (of_nat (length results)))])"

subsection \<open>What a script prints when it exits with code zero\<close>





section \<open>Notions used in the statements\<close>

subsection \<open>What one run of the bridge amounts to\<close>

text \<open>
  The bridge's result and its effects, separately: what \<^verbatim>\<open>executeITermPythonScript\<close>
  returns or throws, what it logs, the state it leaves, and what the handler's
  \<^verbatim>\<open>JSON.parse\<close> makes of the result. The lemmas below show that the bridge computes
  exactly these.
\<close>

definition script_result :: "env \<Rightarrow> string + string" where
  "script_result e =
     (case execPromise e of
        Inr (stdout, stderr) \<Rightarrow> Inr (trim stdout)
      | Inl message \<Rightarrow> Inl (''Python execution failed: '' @ message))"

definition bridge_log :: "env \<Rightarrow> logline list" where
  "bridge_log e =
     (case execPromise e of
        Inr (stdout, stderr) \<Rightarrow>
          if stderr \<noteq> [] \<and> \<not> includes_str stderr ''Warning'' then [PythonScriptStderr stderr] else []
      | Inl message \<Rightarrow> [PythonScriptError message])"

definition files_after :: "env \<Rightarrow> (string \<times> entry) list \<Rightarrow> (string \<times> entry) list" where
  "files_after e fs =
     (let wrote = writeFileSync (scriptPath e) (now e) fs
      in case unlinkSync (scriptPath e) wrote of None \<Rightarrow> wrote | Some fs' \<Rightarrow> fs')"

definition after_bridge :: "env \<Rightarrow> script \<Rightarrow> state \<Rightarrow> state" where
  "after_bridge e sc s =
     s\<lparr> files := files_after e (files s),
        effects := effects s @
          [WriteFile (scriptPath e) sc, Exec (scriptPath e), Unlink (scriptPath e)],
        console := console s @ bridge_log e \<rparr>"

definition bridge_result :: "env \<Rightarrow> string + jsval" where
  "bridge_result e =
     (case script_result e of Inl message \<Rightarrow> Inl message | Inr result \<Rightarrow> JSON_parse e result)"

text \<open>
  A bridge call fails when \<^verbatim>\<open>exec\<close> rejects (the process did not start, was killed at the
  timeout, or exited with a non-zero code) or when its output does not parse.
\<close>

definition bridge_failed :: "env \<Rightarrow> bool" where
  "bridge_failed e = isl (bridge_result e)"

definition failure_message :: "env \<Rightarrow> string" where
  "failure_message e = (case bridge_result e of Inl message \<Rightarrow> message | Inr _ \<Rightarrow> [])"


text \<open>A call ran the bridge when it left effects behind.\<close>

definition invoked :: "state \<Rightarrow> state \<Rightarrow> bool" where
  "invoked s s' = (effects s' \<noteq> effects s)"

text \<open>The tracker's record maps together with the records they refer to.\<close>

definition tracker ::
  "state \<Rightarrow> (string \<times> WindowInfo) list \<times> (string \<times> ref) list \<times> (string \<times> ref) list
     \<times> PaneInfo list \<times> TabInfo list" where
  "tracker s = (windows s, tabs s, panes s, paneObjs s, tabObjs s)"

text \<open>Every reference held by the global maps points into the store.\<close>

definition refs_ok :: "state \<Rightarrow> bool" where
  "refs_ok s =
     (list_all (\<lambda>r. r < length (paneObjs s)) (map_values (panes s)) \<and>
      list_all (\<lambda>r. r < length (tabObjs s)) (map_values (tabs s)))"

subsection \<open>Concrete environments\<close>

text \<open>
  Outputs a script can print, and a \<^verbatim>\<open>JSON.parse\<close> that knows these texts and rejects
  every other one.
\<close>

definition dq :: string where
  "dq = [CHR 0x22]"

definition text_opened :: string where
  "text_opened = ''{'' @ dq @ ''sessionId'' @ dq @ '': '' @ dq @ ''S1'' @ dq @ ''}''"

definition text_split :: string where
  "text_split = ''{'' @ dq @ ''newSessionId'' @ dq @ '': '' @ dq @ ''S2'' @ dq @ ''}''"

definition text_error :: string where
  "text_error =
     ''{'' @ dq @ ''error'' @ dq @ '': '' @ dq @ ''Target session not found'' @ dq @ ''}''"

definition text_sent_none :: string where
  "text_sent_none =
     ''{'' @ dq @ ''success'' @ dq @ '': true, '' @ dq @ ''broadcast_results'' @ dq @ '': [], ''
       @ dq @ ''total_panes'' @ dq @ '': 0}''"

definition text_sent_one :: string where
  "text_sent_one =
     ''{'' @ dq @ ''success'' @ dq @ '': true, '' @ dq @ ''broadcast_results'' @ dq @ '': [{''
       @ dq @ ''session_id'' @ dq @ '': '' @ dq @ ''S1'' @ dq @ '', '' @ dq @ ''success'' @ dq
       @ '': true}], '' @ dq @ ''total_panes'' @ dq @ '': 1}''"

definition demo_parse :: "string \<Rightarrow> string + jsval" where
  "demo_parse text =
     (case map_of [(text_opened, JObj [(''sessionId'', JStr ''S1'')]),
                   (text_split, JObj [(''newSessionId'', JStr ''S2'')]),
                   (text_error, JObj [(''error'', JStr ''Target session not found'')]),
                   (text_sent_none,
                    JObj [(''success'', JBool True), (''broadcast_results'', JArr []),
                          (''total_panes'', JNum 0)]),
                   (text_sent_one,
                    JObj [(''success'', JBool True),
                          (''broadcast_results'',
                           JArr [JObj [(''session_id'', JStr ''S1''), (''success'', JBool True)]]),
                          (''total_panes'', JNum 1)])] text of
        None \<Rightarrow> Inl ''Unexpected token''
      | Some v \<Rightarrow> Inr v)"

definition env_opened :: env where
  "env_opened = \<lparr> now = 1000, proc = Exited 0 (text_opened @ [CHR 0x0A]) [], rejection = [],
                  JSON_parse = demo_parse \<rparr>"

definition env_split :: env where
  "env_split = \<lparr> now = 2000, proc = Exited 0 (text_split @ [CHR 0x0A]) [], rejection = [],
                 JSON_parse = demo_parse \<rparr>"

definition env_error :: env where
  "env_error = \<lparr> now = 3000, proc = Exited 0 (text_error @ [CHR 0x0A]) [], rejection = [],
                 JSON_parse = demo_parse \<rparr>"

definition env_warning :: env where
  "env_warning = \<lparr> now = 4000, proc = Exited 0 (text_opened @ [CHR 0x0A]) ''fatal: Warning'',
                   rejection = [], JSON_parse = demo_parse \<rparr>"

definition env_killed :: env where
  "env_killed = \<lparr> now = 5000, proc = Killed, rejection = ''Command failed: timeout'',
                  JSON_parse = demo_parse \<rparr>"

definition env_exit1 :: env where
  "env_exit1 = \<lparr> now = 8000, proc = Exited 1 (text_error @ [CHR 0x0A]) ''Traceback'',
                 rejection = ''Command failed: python3'', JSON_parse = demo_parse \<rparr>"

definition env_garbled :: env where
  "env_garbled = \<lparr> now = 9000, proc = Exited 0 ''Traceback (most recent call last)'' [],
                   rejection = [], JSON_parse = demo_parse \<rparr>"

definition env_sent_none :: env where
  "env_sent_none = \<lparr> now = 6000, proc = Exited 0 (text_sent_none @ [CHR 0x0A]) [], rejection = [],
                     JSON_parse = demo_parse \<rparr>"

definition env_sent_one :: env where
  "env_sent_one = \<lparr> now = 7000, proc = Exited 0 (text_sent_one @ [CHR 0x0A]) [], rejection = [],
                    JSON_parse = demo_parse \<rparr>"

text \<open>An \<^verbatim>\<open>async_send_text\<close> that always returns.\<close>

definition send_ok :: "string \<Rightarrow> string option" where
  "send_ok sid = None"

text \<open>The state after one \<^verbatim>\<open>open-terminal\<close> that succeeded.\<close>

definition one_pane :: state where
  "one_pane = snd (open_terminal env_opened None (Some ''echo hi'') None initial)"

subsection \<open>Script files\<close>

text \<open>
  An entry named like a script of the bridge; one of these that \<^verbatim>\<open>cleanupOldScripts\<close> is
  to remove, its modification more than 300000 milliseconds before the clock value \<open>t\<close>;
  and one on which the loop of \<^verbatim>\<open>cleanupOldScripts\<close> stops, because \<^verbatim>\<open>statSync\<close> throws
  on it or because it is to be removed and \<^verbatim>\<open>unlinkSync\<close> throws on it.
\<close>

definition script_named :: "string \<times> entry \<Rightarrow> bool" where
  "script_named p = (startsWith (fst p) ''iterm_script_'' \<and> endsWith (fst p) ''.py'')"

definition stale :: "nat \<Rightarrow> string \<times> entry \<Rightarrow> bool" where
  "stale t p = (script_named p \<and> int t - int (mtime (snd p)) > 300000)"

definition stops :: "nat \<Rightarrow> string \<times> entry \<Rightarrow> bool" where
  "stops t p =
     (script_named p \<and> (stat_throws (snd p) \<or> (stale t p \<and> unlink_throws (snd p))))"

definition plain_file :: "nat \<Rightarrow> entry" where
  "plain_file m = \<lparr> mtime = m, stat_throws = False, unlink_throws = False \<rparr>"

definition old_files :: "(string \<times> entry) list" where
  "old_files = [(''iterm_script_1000.py'', plain_file 1000), (''notes.txt'', plain_file 1000),
                (''iterm_script_900000.py'', plain_file 900000),
                (''iterm_script_1001.txt'', plain_file 1001)]"

text \<open>A stale script that cannot be removed, listed before one that can.\<close>

definition locked_files :: "(string \<times> entry) list" where
  "locked_files =
     [(''iterm_script_1000.py'', \<lparr> mtime = 1000, stat_throws = False, unlink_throws = True \<rparr>),
      (''iterm_script_2000.py'', plain_file 2000)]"

text \<open>The state of a fresh server whose directory holds these two.\<close>

definition locked_state :: state where
  "locked_state = initial\<lparr> files := locked_files \<rparr>"

text \<open>A process that exits with code zero after writing more than 1 MiB to standard error.\<close>

definition env_flood :: env where
  "env_flood = \<lparr> now = 1000, proc = Exited 0 ''{}'' (replicate (Suc maxBuffer) (CHR ''x'')),
                 rejection = ''stderr maxBuffer length exceeded'', JSON_parse = demo_parse \<rparr>"

subsection \<open>Broadcast\<close>

text \<open>
  The panes of a list that the tracker knows (\<^verbatim>\<open>validPanes\<close>), their session identifiers
  (\<^verbatim>\<open>sessionIds\<close>), and the sessions the script sends to.
\<close>

definition validPanes :: "state \<Rightarrow> string list \<Rightarrow> string list" where
  "validPanes s paneIds = filter (\<lambda>i. map_has (panes s) i) paneIds"

definition known_session_ids :: "state \<Rightarrow> string list \<Rightarrow> jsval list" where
  "known_session_ids s paneIds =
     map (\<lambda>i. sessionId (paneObjs s ! the (map_of (panes s) i))) (validPanes s paneIds)"

definition target_sessions :: "string list \<Rightarrow> jsval list \<Rightarrow> string list" where
  "target_sessions live session_ids = filter (\<lambda>sid. JStr sid \<in> set session_ids) live"

subsection \<open>Calls\<close>


fun creates :: "call \<Rightarrow> bool" where
  "creates (OpenTerminal profile command workingDir) = True"
| "creates (SplitTerminalHorizontal paneId profile command) = True"
| "creates (SplitTerminalVertical paneId profile command) = True"
| "creates c = False"

text \<open>What each handler's \<^verbatim>\<open>catch\<close> block writes before the message of the error it caught.\<close>

fun failed_prefix :: "call \<Rightarrow> string" where
  "failed_prefix (OpenTerminal profile command workingDir) = ''Failed to create terminal: ''"
| "failed_prefix (SplitTerminalHorizontal paneId profile command) =
     ''Failed to split pane horizontally: ''"
| "failed_prefix (SplitTerminalVertical paneId profile command) =
     ''Failed to split pane vertically: ''"
| "failed_prefix (ExecuteCommandInPane paneId command) =
     ''Failed to execute command in pane '' @ paneId @ '': ''"
| "failed_prefix (GetSessionInfo paneId) = ''Failed to get session info: ''"
| "failed_prefix (GetSessionDetails sid) = ''Failed to read session content: ''"
| "failed_prefix (SetTabColor paneId col) = ''Failed to set tab color: ''"
| "failed_prefix ListAllSessions = ''Failed to list sessions: ''"
| "failed_prefix (MonitorSession paneId duration) = ''Failed to monitor session: ''"
| "failed_prefix (BroadcastInput paneIds command) = ''Failed to broadcast input: ''"
| "failed_prefix ListPanes = []"
| "failed_prefix GetTerminalState = []"

subsection \<open>Identifiers\<close>

text \<open>
  An allocated identifier leaves the handler in the script it is written into: the window,
  tab and pane identifier in the script of \<^verbatim>\<open>open-terminal\<close>, the new pane's in the script
  of a split. Both handlers run their script right after allocating, whatever the script's
  fate. The identifiers of a state are those of the scripts written so far, in order.
\<close>

fun script_window_ids :: "script \<Rightarrow> string list" where
  "script_window_ids (OpenTerminalScript profile workingDir command windowId tabId paneId) = [windowId]"
| "script_window_ids sc = []"

fun script_tab_ids :: "script \<Rightarrow> string list" where
  "script_tab_ids (OpenTerminalScript profile workingDir command windowId tabId paneId) = [tabId]"
| "script_tab_ids sc = []"

fun script_pane_ids :: "script \<Rightarrow> string list" where
  "script_pane_ids (OpenTerminalScript profile workingDir command windowId tabId paneId) = [paneId]"
| "script_pane_ids (SplitScript vertical sid profile command newPaneId) = [newPaneId]"
| "script_pane_ids sc = []"

fun written :: "effect list \<Rightarrow> script list" where
  "written [] = []"
| "written (WriteFile path sc # rest) = sc # written rest"
| "written (eff # rest) = written rest"

definition window_ids :: "state \<Rightarrow> string list" where
  "window_ids s = concat (map script_window_ids (written (effects s)))"

definition tab_ids :: "state \<Rightarrow> string list" where
  "tab_ids s = concat (map script_tab_ids (written (effects s)))"

definition pane_ids :: "state \<Rightarrow> string list" where
  "pane_ids s = concat (map script_pane_ids (written (effects s)))"

text \<open>The identifiers with a given prefix numbered from \<open>a\<close> up to, not including, \<open>b\<close>.\<close>

definition ids_tail :: "string \<Rightarrow> nat \<Rightarrow> nat \<Rightarrow> string list" where
  "ids_tail prefix a b = map (\<lambda>n. prefix @ num_to_string n) [a ..< b]"

text \<open>
  Between two states the identifiers written out are exactly those the counters have
  passed over, and no counter has gone down.
\<close>

definition ids_follow_counters :: "state \<Rightarrow> state \<Rightarrow> bool" where
  "ids_follow_counters s s' =
     (windowCounter s \<le> windowCounter s' \<and>
      window_ids s' = window_ids s @ ids_tail ''window-'' (windowCounter s) (windowCounter s') \<and>
      tabCounter s \<le> tabCounter s' \<and>
      tab_ids s' = tab_ids s @ ids_tail ''tab-'' (tabCounter s) (tabCounter s') \<and>
      paneCounter s \<le> paneCounter s' \<and>
      pane_ids s' = pane_ids s @ ids_tail ''pane-'' (paneCounter s) (paneCounter s'))"

text \<open>The number an identifier ends in, after a prefix of the given length.\<close>

definition suffix_number :: "nat \<Rightarrow> string \<Rightarrow> nat" where
  "suffix_number n ident = digits_val (drop n ident)"

subsection \<open>Payloads\<close>



subsection \<open>A state with two panes\<close>

text \<open>The state after \<^verbatim>\<open>split-terminal-vertical({})\<close> on the state with one pane.\<close>

definition two_panes :: state where
  "two_panes = snd (split_terminal True env_split None None None one_pane)"

subsection \<open>A run with failures\<close>

text \<open>
  An \<^verbatim>\<open>open-terminal\<close> whose process is killed, one that succeeds, a split whose process is
  killed, and a split that succeeds.
\<close>

definition demo_calls :: "(env \<times> call) list" where
  "demo_calls =
     [(env_killed, OpenTerminal None None None),
      (env_opened, OpenTerminal None (Some ''echo hi'') None),
      (env_killed, SplitTerminalHorizontal (Some ''pane-1'') None None),
      (env_split, SplitTerminalVertical None None None)]"

section \<open>Maps and the bridge\<close>

lemmas trim_defs = trim_def strip_end_def strip_start.simps white_space_def startsWith_def

lemma map_of_map_set: "map_of (map_set k v m) k' = (if k' = k then Some v else map_of m k')"
  by (induction m) auto

lemma map_has_map_set: "map_has (map_set k v m) k"
  by (simp add: map_has_def map_of_map_set)

lemma filter_map_set: "filter (\<lambda>p. fst p \<noteq> k) (map_set k v m) = filter (\<lambda>p. fst p \<noteq> k) m"
  by (induction m) auto

lemma files_after_Nil [simp]: "files_after e [] = []"
  by (simp add: files_after_def writeFileSync_def unlinkSync_def)

lemma executeITermPythonScript_eq:
  "executeITermPythonScript e sc s = (script_result e, after_bridge e sc s)"
  by (auto simp: executeITermPythonScript_def script_result_def after_bridge_def files_after_def
      bridge_log_def Let_def split: sum.splits prod.splits option.splits)

lemma call_bridge_eq: "call_bridge e sc s = (bridge_result e, after_bridge e sc s)"
  by (simp add: call_bridge_def executeITermPythonScript_eq bridge_result_def split: sum.splits)

section \<open>The bridge and its script file\<close>

text \<open>
  C9, as the code has it. For every bridge invocation: the bridge returns the trimmed
  standard output exactly when the process exits with code zero and neither of its
  outputs is longer than the 1 MiB that \<^verbatim>\<open>exec\<close> buffers; in every other case it throws
  \<^verbatim>\<open>Python execution failed\<close> and logs the error. Standard error within the limit never
  fails the call, and on success it is logged exactly when it is not empty and does not
  contain \<^verbatim>\<open>Warning\<close> anywhere (the test is \<^verbatim>\<open>includes\<close>, not a prefix test).
\<close>

theorem stderr_logged_iff:
  "fst (executeITermPythonScript e sc s) =
     (case proc e of
        Exited code out err \<Rightarrow>
          if code = 0 \<and> length out \<le> maxBuffer \<and> length err \<le> maxBuffer then Inr (trim out)
          else Inl (''Python execution failed: '' @ rejection e)
      | Killed \<Rightarrow> Inl (''Python execution failed: '' @ rejection e)
      | SpawnFailed \<Rightarrow> Inl (''Python execution failed: '' @ rejection e)) \<and>
   console (snd (executeITermPythonScript e sc s)) =
     console s @
     (case proc e of
        Exited code out err \<Rightarrow>
          if code = 0 \<and> length out \<le> maxBuffer \<and> length err \<le> maxBuffer
          then (if err \<noteq> [] \<and> \<not> includes_str err ''Warning'' then [PythonScriptStderr err] else [])
          else [PythonScriptError (rejection e)]
      | Killed \<Rightarrow> [PythonScriptError (rejection e)]
      | SpawnFailed \<Rightarrow> [PythonScriptError (rejection e)])"
  by (simp add: executeITermPythonScript_eq script_result_def after_bridge_def bridge_log_def
      execPromise_def split: proc_outcome.splits)

theorem stderr_logged_iff_witness:
  "fst (executeITermPythonScript env_warning ListSessionsScript initial) = Inr text_opened \<and>
   console (snd (executeITermPythonScript env_warning ListSessionsScript initial)) = [] \<and>
   fst (executeITermPythonScript env_flood ListSessionsScript initial) =
     Inl ''Python execution failed: stderr maxBuffer length exceeded'' \<and>
   console (snd (executeITermPythonScript env_flood ListSessionsScript initial)) =
     [PythonScriptError ''stderr maxBuffer length exceeded''] \<and>
   fst (executeITermPythonScript env_killed ListSessionsScript initial) =
     Inl ''Python execution failed: Command failed: timeout''"
  using stderr_logged_iff [of env_warning ListSessionsScript initial]
    stderr_logged_iff [of env_flood ListSessionsScript initial]
    stderr_logged_iff [of env_killed ListSessionsScript initial]
  by (simp add: env_warning_def env_flood_def env_killed_def initial_def text_opened_def dq_def
      trim_defs maxBuffer_def)

text \<open>
  C9 as stated fails: the standard error \<^verbatim>\<open>fatal: Warning\<close> is not empty and does not start
  with \<^verbatim>\<open>Warning\<close>, and it is not logged.
\<close>

theorem stderr_not_prefixed_not_logged:
  "''fatal: Warning'' \<noteq> [] \<and> \<not> startsWith ''fatal: Warning'' ''Warning'' \<and>
   console (snd (executeITermPythonScript env_warning ListSessionsScript initial)) =
     console initial"
  by (simp add: executeITermPythonScript_eq after_bridge_def bridge_log_def execPromise_def
      maxBuffer_def env_warning_def startsWith_def text_opened_def dq_def)

lemma unlink_fresh:
  "k \<notin> fst ` set pre \<Longrightarrow> k \<notin> fst ` set rest \<Longrightarrow>
     filter (\<lambda>p. fst p \<noteq> k) (pre @ (k, m) # rest) = pre @ rest"
  by (induction pre) (auto simp: filter_id_conv)

lemma stat_fresh: "k \<notin> fst ` set pre \<Longrightarrow> map_of (pre @ (k, m) # rest) k = Some m"
  by (induction pre) auto

text \<open>
  The loop of \<^verbatim>\<open>cleanupOldScripts\<close>, started anywhere in the listing: the files before the
  current one (\<open>pre\<close>) have been dealt with; of the others, those up to the first one the
  loop stops on are filtered, and that one and all after it stay.
\<close>

lemma cleanup_loop_stops:
  "distinct (map fst (pre @ rest)) \<Longrightarrow>
     cleanup_loop t (map fst rest) (pre @ rest) =
       pre @ filter (\<lambda>p. \<not> stale t p) (takeWhile (\<lambda>p. \<not> stops t p) rest)
           @ dropWhile (\<lambda>p. \<not> stops t p) rest"
proof (induction rest arbitrary: pre)
  case Nil
  then show ?case by simp
next
  case (Cons p rest)
  obtain k en where p: "p = (k, en)" by (cases p)
  from Cons.prems p have fresh: "k \<notin> fst ` set pre" "k \<notin> fst ` set rest"
    by auto
  have look: "map_of (pre @ (k, en) # rest) k = Some en"
    by (rule stat_fresh [OF fresh(1)])
  have stat: "statSync k (pre @ (k, en) # rest) = (if stat_throws en then None else Some (mtime en))"
    by (simp only: statSync_def look option.case)
  have unlink: "unlinkSync k (pre @ (k, en) # rest) =
      (if unlink_throws en then None else Some (pre @ rest))"
    by (simp only: unlinkSync_def look option.case unlink_fresh [OF fresh])
  from Cons.prems p have keep: "distinct (map fst ((pre @ [p]) @ rest))"
    and drop: "distinct (map fst (pre @ rest))"
    by simp_all
  show ?case
  proof (cases "stops t p")
    case True
    then show ?thesis
      by (auto simp: p stops_def stale_def script_named_def stat unlink)
  next
    case False
    show ?thesis
    proof (cases "stale t p")
      case True
      with False Cons.IH [OF drop] show ?thesis
        by (auto simp: p stops_def stale_def script_named_def stat unlink)
    next
      case stay: False
      with False Cons.IH [OF keep] show ?thesis
        by (auto simp: p stops_def stale_def script_named_def stat unlink)
    qed
  qed
qed

text \<open>
  C8, as the code has it. One bridge call writes one script file, runs it and then calls
  \<^verbatim>\<open>unlinkSync\<close> on it, whatever the process does (exit with any code, kill at the
  timeout, failure to start): the three calls are the same for every environment. An
  error of that removal is ignored, and then the file stays; when the removal does not
  throw, the directory afterwards holds what it held before without the script's name.
  At start-up \<^verbatim>\<open>cleanupOldScripts\<close> goes through the listing in order and removes the
  files named \<^verbatim>\<open>iterm_script_*.py\<close> that are more than 300000 ms old, up to the first
  file on which \<^verbatim>\<open>statSync\<close> or \<^verbatim>\<open>unlinkSync\<close> throws: that error ends the clean-up
  silently, and the files from there on stay. When no call throws, every such file is
  removed and every other file is kept. Writing the script file is taken to succeed.
\<close>

theorem script_file_removed:
  "effects (snd (executeITermPythonScript e sc s)) =
     effects s @ [WriteFile (scriptPath e) sc, Exec (scriptPath e), Unlink (scriptPath e)] \<and>
   files (snd (executeITermPythonScript e sc s)) =
     (case unlinkSync (scriptPath e) (writeFileSync (scriptPath e) (now e) (files s)) of
        None \<Rightarrow> writeFileSync (scriptPath e) (now e) (files s)
      | Some fs' \<Rightarrow> fs') \<and>
   ((\<forall>en. map_of (files s) (scriptPath e) = Some en \<longrightarrow> \<not> unlink_throws en) \<longrightarrow>
      files (snd (executeITermPythonScript e sc s)) =
        filter (\<lambda>p. fst p \<noteq> scriptPath e) (files s) \<and>
      \<not> map_has (files (snd (executeITermPythonScript e sc s))) (scriptPath e)) \<and>
   (distinct (map fst fs) \<longrightarrow>
      cleanupOldScripts t fs =
        filter (\<lambda>p. \<not> stale t p) (takeWhile (\<lambda>p. \<not> stops t p) fs)
          @ dropWhile (\<lambda>p. \<not> stops t p) fs) \<and>
   (distinct (map fst fs) \<and> list_all (\<lambda>p. \<not> stops t p) fs \<longrightarrow>
      cleanupOldScripts t fs = filter (\<lambda>p. \<not> stale t p) fs)"
proof -
  have gone: "\<not> map_has (filter (\<lambda>p. fst p \<noteq> k) m) k" for k and m :: "(string \<times> entry) list"
    by (induction m) (auto simp: map_has_def)
  have removed: "files_after e (files s) = filter (\<lambda>p. fst p \<noteq> scriptPath e) (files s)"
    if "\<forall>en. map_of (files s) (scriptPath e) = Some en \<longrightarrow> \<not> unlink_throws en"
    using that
    by (auto simp: files_after_def unlinkSync_def writeFileSync_def map_of_map_set filter_map_set
        split: option.splits)
  have loop: "cleanupOldScripts t fs =
        filter (\<lambda>p. \<not> stale t p) (takeWhile (\<lambda>p. \<not> stops t p) fs)
          @ dropWhile (\<lambda>p. \<not> stops t p) fs"
    if "distinct (map fst fs)"
    using cleanup_loop_stops [of "[]" fs t] that
    by (simp add: cleanupOldScripts_def readdirSync_def)
  have all: "cleanupOldScripts t fs = filter (\<lambda>p. \<not> stale t p) fs"
    if "distinct (map fst fs)" "list_all (\<lambda>p. \<not> stops t p) fs"
  proof -
    from that(2) have "takeWhile (\<lambda>p. \<not> stops t p) fs = fs" "dropWhile (\<lambda>p. \<not> stops t p) fs = []"
      by (simp_all add: list_all_iff)
    with loop [OF that(1)] show ?thesis by simp
  qed
  show ?thesis
    using gone removed loop all
    by (simp add: executeITermPythonScript_eq after_bridge_def files_after_def Let_def)
qed

theorem script_file_removed_witness:
  "effects (snd (executeITermPythonScript env_killed ListSessionsScript initial)) =
     [WriteFile ''iterm_script_5000.py'' ListSessionsScript, Exec ''iterm_script_5000.py'',
      Unlink ''iterm_script_5000.py''] \<and>
   files (snd (executeITermPythonScript env_killed ListSessionsScript initial)) = [] \<and>
   files (snd (executeITermPythonScript env_flood ListSessionsScript locked_state)) =
     locked_files \<and>
   distinct (map fst old_files) \<and> list_all (\<lambda>p. \<not> stops 1000000 p) old_files \<and>
   cleanupOldScripts 1000000 old_files =
     [(''notes.txt'', plain_file 1000), (''iterm_script_900000.py'', plain_file 900000),
      (''iterm_script_1001.txt'', plain_file 1001)] \<and>
   distinct (map fst locked_files) \<and>
   cleanupOldScripts 1000000 locked_files = locked_files"
  using script_file_removed [of env_killed ListSessionsScript initial old_files 1000000]
    script_file_removed [of env_flood ListSessionsScript locked_state locked_files 1000000]
  by (simp add: old_files_def locked_files_def locked_state_def plain_file_def stale_def stops_def
      script_named_def startsWith_def endsWith_def initial_def scriptPath_def env_killed_def
      env_flood_def num_to_string.simps digit_char_def writeFileSync_def unlinkSync_def)

text \<open>
  C8 as stated fails: both scripts in the directory are more than five minutes old, the
  first cannot be removed, and the clean-up at start-up leaves the second one too.
\<close>

theorem stale_script_survives_cleanup:
  "stale 1000000 (''iterm_script_1000.py'', \<lparr> mtime = 1000, stat_throws = False, unlink_throws = True \<rparr>) \<and>
   stale 1000000 (''iterm_script_2000.py'', plain_file 2000) \<and>
   cleanupOldScripts 1000000
     [(''iterm_script_1000.py'', \<lparr> mtime = 1000, stat_throws = False, unlink_throws = True \<rparr>),
      (''iterm_script_2000.py'', plain_file 2000)] =
     [(''iterm_script_1000.py'', \<lparr> mtime = 1000, stat_throws = False, unlink_throws = True \<rparr>),
      (''iterm_script_2000.py'', plain_file 2000)]"
  by (simp add: cleanupOldScripts_def readdirSync_def statSync_def unlinkSync_def stale_def
      script_named_def plain_file_def startsWith_def endsWith_def)

section \<open>The concrete environments\<close>

text \<open>What the concrete environments give, step by step.\<close>

lemma demo_trim:
  "trim (text_opened @ [CHR 0x0A]) = text_opened"
  "trim (text_split @ [CHR 0x0A]) = text_split"
  "trim (text_error @ [CHR 0x0A]) = text_error"
  "trim (text_sent_none @ [CHR 0x0A]) = text_sent_none"
  "trim (text_sent_one @ [CHR 0x0A]) = text_sent_one"
  "trim ''Traceback (most recent call last)'' = ''Traceback (most recent call last)''"
  by (simp_all add: text_opened_def text_split_def text_error_def text_sent_none_def
      text_sent_one_def dq_def trim_defs)

lemma demo_exec:
  "execPromise env_opened = Inr (text_opened @ [CHR 0x0A], [])"
  "execPromise env_split = Inr (text_split @ [CHR 0x0A], [])"
  "execPromise env_error = Inr (text_error @ [CHR 0x0A], [])"
  "execPromise env_warning = Inr (text_opened @ [CHR 0x0A], ''fatal: Warning'')"
  "execPromise env_sent_none = Inr (text_sent_none @ [CHR 0x0A], [])"
  "execPromise env_sent_one = Inr (text_sent_one @ [CHR 0x0A], [])"
  "execPromise env_garbled = Inr (''Traceback (most recent call last)'', [])"
  "execPromise env_killed = Inl ''Command failed: timeout''"
  "execPromise env_exit1 = Inl ''Command failed: python3''"
  "execPromise env_flood = Inl ''stderr maxBuffer length exceeded''"
  by (simp_all add: execPromise_def maxBuffer_def env_opened_def env_split_def env_error_def
      env_warning_def env_sent_none_def env_sent_one_def env_garbled_def env_killed_def
      env_exit1_def env_flood_def text_opened_def text_split_def text_error_def
      text_sent_none_def text_sent_one_def dq_def)

lemma demo_json:
  "JSON_parse env_opened = demo_parse"
  "JSON_parse env_split = demo_parse"
  "JSON_parse env_error = demo_parse"
  "JSON_parse env_sent_none = demo_parse"
  "JSON_parse env_sent_one = demo_parse"
  "JSON_parse env_garbled = demo_parse"
  by (simp_all add: env_opened_def env_split_def env_error_def env_sent_none_def
      env_sent_one_def env_garbled_def)

lemma demo_parse_eq:
  "demo_parse text_opened = Inr (JObj [(''sessionId'', JStr ''S1'')])"
  "demo_parse text_split = Inr (JObj [(''newSessionId'', JStr ''S2'')])"
  "demo_parse text_error = Inr (JObj [(''error'', JStr ''Target session not found'')])"
  "demo_parse text_sent_none =
     Inr (JObj [(''success'', JBool True), (''broadcast_results'', JArr []),
                (''total_panes'', JNum 0)])"
  "demo_parse text_sent_one =
     Inr (JObj [(''success'', JBool True),
                (''broadcast_results'',
                 JArr [JObj [(''session_id'', JStr ''S1''), (''success'', JBool True)]]),
                (''total_panes'', JNum 1)])"
  "demo_parse ''Traceback (most recent call last)'' = Inl ''Unexpected token''"
  by (simp_all add: demo_parse_def text_opened_def text_split_def text_error_def
      text_sent_none_def text_sent_one_def dq_def)

lemma demo_results:
  "bridge_result env_opened = Inr (JObj [(''sessionId'', JStr ''S1'')])"
  "bridge_result env_split = Inr (JObj [(''newSessionId'', JStr ''S2'')])"
  "bridge_result env_error = Inr (JObj [(''error'', JStr ''Target session not found'')])"
  "bridge_result env_killed = Inl ''Python execution failed: Command failed: timeout''"
  "bridge_result env_exit1 = Inl ''Python execution failed: Command failed: python3''"
  "bridge_result env_garbled = Inl ''Unexpected token''"
  "bridge_result env_sent_none =
     Inr (JObj [(''success'', JBool True), (''broadcast_results'', JArr []),
                (''total_panes'', JNum 0)])"
  "bridge_result env_sent_one =
     Inr (JObj [(''success'', JBool True),
                (''broadcast_results'',
                 JArr [JObj [(''session_id'', JStr ''S1''), (''success'', JBool True)]]),
                (''total_panes'', JNum 1)])"
  by (simp_all add: bridge_result_def script_result_def demo_exec demo_trim demo_json
      demo_parse_eq)

lemma demo_paths:
  "scriptPath env_opened = ''iterm_script_1000.py''"
  "scriptPath env_split = ''iterm_script_2000.py''"
  "scriptPath env_error = ''iterm_script_3000.py''"
  "scriptPath env_killed = ''iterm_script_5000.py''"
  "scriptPath env_sent_none = ''iterm_script_6000.py''"
  "scriptPath env_sent_one = ''iterm_script_7000.py''"
  by (simp_all add: scriptPath_def env_opened_def env_split_def env_error_def env_killed_def
      env_sent_none_def env_sent_one_def num_to_string.simps digit_char_def)

lemma demo_logs:
  "bridge_log env_opened = []"
  "bridge_log env_split = []"
  "bridge_log env_error = []"
  "bridge_log env_killed = [PythonScriptError ''Command failed: timeout'']"
  by (simp_all add: bridge_log_def demo_exec)

section \<open>A state with one pane\<close>

text \<open>The state after \<^verbatim>\<open>open-terminal({command: "echo hi"})\<close> on a fresh server.\<close>

lemma one_pane_eq:
  "one_pane =
     \<lparr> windows = [(''window-0'', \<lparr> window_id = ''window-0'', window_tabs = [(''tab-0'', 0)],
                                  activeTabId = Some ''tab-0'' \<rparr>)],
       tabs = [(''tab-0'', 0)], panes = [(''pane-0'', 0)],
       paneObjs = [\<lparr> pane_id = ''pane-0'', sessionId = JStr ''S1'', pane_windowId = ''window-0'',
                     pane_tabId = ''tab-0'', position_x = 0, position_y = 0, isActive = True,
                     title = JUndefined, workingDirectory = JUndefined,
                     foregroundJob = JUndefined \<rparr>],
       tabObjs = [\<lparr> tab_id = ''tab-0'', tab_windowId = ''window-0'',
                    tab_panes = [(''pane-0'', 0)], activePaneId = Some ''pane-0'', color = None \<rparr>],
       windowCounter = 1, tabCounter = 1, paneCounter = 1,
       files = [],
       effects = [WriteFile ''iterm_script_1000.py''
                    (OpenTerminalScript None None (Some ''echo hi'') ''window-0'' ''tab-0'' ''pane-0''),
                  Exec ''iterm_script_1000.py'', Unlink ''iterm_script_1000.py''],
       console = [] \<rparr>"
  by (simp add: one_pane_def open_terminal_def call_bridge_eq after_bridge_def demo_results
      demo_logs demo_paths allocWindowId_def allocTabId_def allocPaneId_def initial_def hole_def
      opt_jsval_def num_to_string.simps digit_char_def)

section \<open>monitor-session\<close>

text \<open>
  C10. For a known pane, \<^verbatim>\<open>monitor-session\<close> runs the monitoring script with the duration
  it was given when that is truthy and with 10 otherwise: a duration of 0 (or NaN, or none)
  monitors for 10 seconds.
\<close>

theorem monitor_duration:
  "map_of (panes s) paneId = Some r \<Longrightarrow>
     effects (snd (monitor_session e paneId duration s)) =
       effects s @
       [WriteFile (scriptPath e)
          (MonitorScript (sessionId (paneObjs s ! r))
             (case duration of
                None \<Rightarrow> Finite 10
              | Some d \<Rightarrow> if truthy_num d then d else Finite 10)),
        Exec (scriptPath e), Unlink (scriptPath e)]"
  by (auto simp: monitor_session_def call_bridge_eq after_bridge_def duration_or_10_def Let_def
      split: sum.splits option.splits)

theorem monitor_duration_witness:
  "map_of (panes one_pane) ''pane-0'' = Some 0 \<and>
   effects (snd (monitor_session env_killed ''pane-0'' (Some (Finite 0)) one_pane)) =
     effects one_pane @
     [WriteFile ''iterm_script_5000.py'' (MonitorScript (JStr ''S1'') (Finite 10)),
      Exec ''iterm_script_5000.py'', Unlink ''iterm_script_5000.py'']"
  using monitor_duration [of one_pane "''pane-0''" 0 env_killed "Some (Finite 0)"]
  by (simp add: one_pane_eq scriptPath_def env_killed_def num_to_string.simps digit_char_def)

section \<open>The colour of set-tab-color\<close>

lemma hex_digit_char:
  "hex_digit c = Some d \<Longrightarrow> c \<in> set ''0123456789abcdefABCDEF'' \<and> d < 16"
  by (auto simp: hex_digit_def split: if_splits)

lemma hex_digit_plain:
  assumes "hex_digit c = Some d"
  shows "plain_char c" and "\<not> is_space c" and "c \<noteq> CHR ''+''" and "c \<noteq> CHR ''-''"
  using hex_digit_char [OF assms]
  by (auto simp: plain_char_def is_space_def)

lemma int16_pair:
  assumes "hex_digit c1 = Some d1" and "hex_digit c2 = Some d2"
  shows "int16 [c1, c2] = Inr (int (16 * d1 + d2))"
  using assms hex_digit_plain [OF assms(1)] hex_digit_plain [OF assms(2)]
  by (simp add: int16_def py_strip_def unsigned16_def)


lemma hex_color_obj:
  assumes "hex_digit c1 = Some d1" and "hex_digit c2 = Some d2" and "hex_digit c3 = Some d3"
    and "hex_digit c4 = Some d4" and "hex_digit c5 = Some d5" and "hex_digit c6 = Some d6"
  shows "color_obj (CHR ''#'' # c1 # c2 # c3 # c4 # c5 # c6 # rest) =
           Inr (of_nat (16 * d1 + d2) / 255, of_nat (16 * d3 + d4) / 255,
                of_nat (16 * d5 + d6) / 255)"
proof -
  have r: "channel (c1 # c2 # c3 # c4 # c5 # c6 # rest) 0 = Inr (of_nat (16 * d1 + d2) / 255)"
    using int16_pair [OF assms(1,2)] by (simp add: channel_def)
  have g: "channel (c1 # c2 # c3 # c4 # c5 # c6 # rest) 2 = Inr (of_nat (16 * d3 + d4) / 255)"
    using int16_pair [OF assms(3,4)] by (simp add: channel_def)
  have b: "channel (c1 # c2 # c3 # c4 # c5 # c6 # rest) 4 = Inr (of_nat (16 * d5 + d6) / 255)"
    using int16_pair [OF assms(5,6)] by (simp add: channel_def)
  show ?thesis
    by (simp add: color_obj_def startsWith_def r g b)
qed

text \<open>
  C6. The colour rule of \<^verbatim>\<open>set-tab-color\<close> maps \<^verbatim>\<open>#FF0000\<close> and \<^verbatim>\<open>red\<close> to (1, 0, 0) and
  \<^verbatim>\<open>chartreuse\<close> to the grey (0.5, 0.5, 0.5); the named colours are red, green, blue,
  yellow, purple, cyan, orange and pink, each mapped to its tuple of \<open>color_map\<close>; every
  other argument that does not start with \<^verbatim>\<open>#\<close> gives the grey; and \<^verbatim>\<open>#\<close> followed by six
  hexadecimal digits gives the three bytes, each divided by 255. Channels are rationals
  here (doubles in Python).
\<close>

theorem color_parsing:
  "tab_color ''#FF0000'' = Some (Inr (1, 0, 0)) \<and>
   tab_color ''red'' = Some (Inr (1, 0, 0)) \<and>
   tab_color ''chartreuse'' = Some (Inr (1 / 2, 1 / 2, 1 / 2)) \<and>
   map fst color_map =
     [''red'', ''green'', ''blue'', ''yellow'', ''purple'', ''cyan'', ''orange'', ''pink''] \<and>
   (\<forall>(name, c) \<in> set color_map. tab_color name = Some (Inr c)) \<and>
   (list_all plain_char col \<and> \<not> startsWith col ''#'' \<and> lower col \<notin> set (map fst color_map)
      \<longrightarrow> tab_color col = Some (Inr (1 / 2, 1 / 2, 1 / 2))) \<and>
   (hex_digit c1 = Some d1 \<and> hex_digit c2 = Some d2 \<and> hex_digit c3 = Some d3 \<and>
    hex_digit c4 = Some d4 \<and> hex_digit c5 = Some d5 \<and> hex_digit c6 = Some d6 \<and>
    list_all plain_char rest
      \<longrightarrow> tab_color (CHR ''#'' # c1 # c2 # c3 # c4 # c5 # c6 # rest) =
            Some (Inr (of_nat (16 * d1 + d2) / 255, of_nat (16 * d3 + d4) / 255,
                       of_nat (16 * d5 + d6) / 255)))"
proof -
  have concrete:
    "tab_color ''#FF0000'' = Some (Inr (1, 0, 0))"
    "tab_color ''red'' = Some (Inr (1, 0, 0))"
    "tab_color ''chartreuse'' = Some (Inr (1 / 2, 1 / 2, 1 / 2))"
    by code_simp+
  have names: "map fst color_map =
     [''red'', ''green'', ''blue'', ''yellow'', ''purple'', ''cyan'', ''orange'', ''pink'']"
    by (simp add: color_map_def)
  have named: "\<forall>(name, c) \<in> set color_map. tab_color name = Some (Inr c)"
    by code_simp
  have unknown: "tab_color col = Some (Inr (1 / 2, 1 / 2, 1 / 2))"
    if "list_all plain_char col" "\<not> startsWith col ''#''" "lower col \<notin> set (map fst color_map)"
  proof -
    from that(3) have "map_of color_map (lower col) = None"
      by (simp add: map_of_eq_None_iff)
    with that(1,2) show ?thesis
      by (simp add: tab_color_def color_value_def color_obj_def)
  qed
  have hex: "tab_color (CHR ''#'' # c1 # c2 # c3 # c4 # c5 # c6 # rest) =
            Some (Inr (of_nat (16 * d1 + d2) / 255, of_nat (16 * d3 + d4) / 255,
                       of_nat (16 * d5 + d6) / 255))"
    if h: "hex_digit c1 = Some d1" "hex_digit c2 = Some d2" "hex_digit c3 = Some d3"
      "hex_digit c4 = Some d4" "hex_digit c5 = Some d5" "hex_digit c6 = Some d6"
      and rest: "list_all plain_char rest"
  proof -
    have "list_all plain_char (CHR ''#'' # c1 # c2 # c3 # c4 # c5 # c6 # rest)"
      using h [THEN hex_digit_plain(1)] rest by (simp add: plain_char_def)
    then show ?thesis
      by (simp only: tab_color_def color_value_def if_True option.map hex_color_obj [OF h])
  qed
  from concrete names named unknown hex show ?thesis
    by blast
qed

theorem color_parsing_witness:
  "list_all plain_char ''Teal'' \<and> \<not> startsWith ''Teal'' ''#'' \<and>
   lower ''Teal'' \<notin> set (map fst color_map) \<and>
   tab_color ''Teal'' = Some (Inr (1 / 2, 1 / 2, 1 / 2)) \<and>
   hex_digit CHR ''1'' = Some 1 \<and> hex_digit CHR ''a'' = Some 10 \<and> hex_digit CHR ''2'' = Some 2 \<and>
   hex_digit CHR ''B'' = Some 11 \<and> hex_digit CHR ''3'' = Some 3 \<and> hex_digit CHR ''c'' = Some 12 \<and>
   tab_color ''#1a2B3c'' = Some (Inr (26 / 255, 43 / 255, 60 / 255)) \<and>
   tab_color ''pink'' = Some (Inr (1, 7 / 10, 8 / 10))"
  using color_parsing [of "''Teal''" "CHR ''1''" 1 "CHR ''a''" 10 "CHR ''2''" 2 "CHR ''B''" 11
      "CHR ''3''" 3 "CHR ''c''" 12 "[]"]
  by (simp add: plain_char_def startsWith_def lower_def lower_char_def color_map_def hex_digit_def)

section \<open>The default pane of a split\<close>

lemma resolveTarget_default:
  "hole paneId = None \<Longrightarrow>
     resolveTarget paneId s =
       (case filter (\<lambda>r. isActive (paneObjs s ! r)) (map_values (panes s)) of
          [] \<Rightarrow> Inl (Text ''No active pane found'')
        | r # _ \<Rightarrow> Inr r)"
  by (simp add: resolveTarget_def)

lemma resolveTarget_member:
  assumes "resolveTarget paneId s = Inr r"
  shows "r \<in> set (map_values (panes s))"
proof (cases "hole paneId")
  case None
  with assms obtain rest where
    "filter (\<lambda>r. isActive (paneObjs s ! r)) (map_values (panes s)) = r # rest"
    by (auto simp: resolveTarget_def split: list.splits)
  then have "r \<in> set (filter (\<lambda>r. isActive (paneObjs s ! r)) (map_values (panes s)))"
    by simp
  then show ?thesis by simp
next
  case (Some pid)
  with assms have "map_of (panes s) pid = Some r"
    by (auto simp: resolveTarget_def split: option.splits)
  then have "(pid, r) \<in> set (panes s)"
    by (rule map_of_SomeD)
  then show ?thesis
    by (force simp: map_values_def)
qed

text \<open>
  C7. When a split is given no pane identifier (none, or the empty string): with no pane
  in the tracker the handler answers \<^verbatim>\<open>No active pane found\<close> and leaves the whole state
  as it was; when some tracked pane is active, the resolution succeeds with a tracked
  active pane and the script is run on that pane's session; and whenever the resolution
  fails the handler returns the failure response and leaves the whole state, effects
  included, as it was, so no script was run.
\<close>

theorem default_pane_resolution:
  "hole paneId = None \<Longrightarrow>
     (panes s = [] \<longrightarrow>
        split_terminal vertical e paneId profile command s = (Inr (Text ''No active pane found''), s)) \<and>
     ((\<exists>r \<in> set (map_values (panes s)). isActive (paneObjs s ! r)) \<longrightarrow>
        (\<exists>r \<in> set (map_values (panes s)).
           isActive (paneObjs s ! r) \<and> resolveTarget paneId s = Inr r \<and>
           effects (snd (split_terminal vertical e paneId profile command s)) =
             effects s @
             [WriteFile (scriptPath e)
                (SplitScript vertical (sessionId (paneObjs s ! r)) (hole profile) (hole command)
                   (''pane-'' @ num_to_string (paneCounter s))),
              Exec (scriptPath e), Unlink (scriptPath e)])) \<and>
     (\<forall>resp. resolveTarget paneId s = Inl resp \<longrightarrow>
        split_terminal vertical e paneId profile command s = (Inr resp, s))"
proof (intro conjI impI allI)
  assume "hole paneId = None" "panes s = []"
  then show "split_terminal vertical e paneId profile command s = (Inr (Text ''No active pane found''), s)"
    by (simp add: split_terminal_def resolveTarget_def map_values_def)
next
  fix resp
  assume "resolveTarget paneId s = Inl resp"
  then show "split_terminal vertical e paneId profile command s = (Inr resp, s)"
    by (simp add: split_terminal_def)
next
  assume none: "hole paneId = None"
    and ex: "\<exists>r \<in> set (map_values (panes s)). isActive (paneObjs s ! r)"
  from ex have "filter (\<lambda>r. isActive (paneObjs s ! r)) (map_values (panes s)) \<noteq> []"
    by (simp add: filter_empty_conv)
  then obtain r rest where
    f: "filter (\<lambda>r. isActive (paneObjs s ! r)) (map_values (panes s)) = r # rest"
    by (cases "filter (\<lambda>r. isActive (paneObjs s ! r)) (map_values (panes s))") auto
  then have "r \<in> set (filter (\<lambda>r. isActive (paneObjs s ! r)) (map_values (panes s)))"
    by simp
  then have r: "r \<in> set (map_values (panes s))" "isActive (paneObjs s ! r)"
    by auto
  have res: "resolveTarget paneId s = Inr r"
    using none f by (simp add: resolveTarget_default)
  have "effects (snd (split_terminal vertical e paneId profile command s)) =
          effects s @
          [WriteFile (scriptPath e)
             (SplitScript vertical (sessionId (paneObjs s ! r)) (hole profile) (hole command)
                (''pane-'' @ num_to_string (paneCounter s))),
           Exec (scriptPath e), Unlink (scriptPath e)]"
    by (auto simp: split_terminal_def res allocPaneId_def call_bridge_eq after_bridge_def Let_def
        split: sum.splits option.splits)
  with r res show "\<exists>r \<in> set (map_values (panes s)).
           isActive (paneObjs s ! r) \<and> resolveTarget paneId s = Inr r \<and>
           effects (snd (split_terminal vertical e paneId profile command s)) =
             effects s @
             [WriteFile (scriptPath e)
                (SplitScript vertical (sessionId (paneObjs s ! r)) (hole profile) (hole command)
                   (''pane-'' @ num_to_string (paneCounter s))),
              Exec (scriptPath e), Unlink (scriptPath e)]"
    by blast
qed

theorem default_pane_resolution_witness:
  "hole None = None \<and> panes initial = [] \<and>
   split_terminal True env_split None None None initial = (Inr (Text ''No active pane found''), initial) \<and>
   isActive (paneObjs one_pane ! 0) \<and>
   resolveTarget None one_pane = Inr 0 \<and>
   effects (snd (split_terminal True env_split None None None one_pane)) =
     effects one_pane @
     [WriteFile ''iterm_script_2000.py'' (SplitScript True (JStr ''S1'') None None ''pane-1''),
      Exec ''iterm_script_2000.py'', Unlink ''iterm_script_2000.py'']"
  using default_pane_resolution [of None initial True env_split None None]
    default_pane_resolution [of None one_pane True env_split None None]
  by (simp add: hole_def initial_def one_pane_eq map_values_def resolveTarget_def scriptPath_def
      env_split_def num_to_string.simps digit_char_def)

section \<open>broadcast-input\<close>

text \<open>
  C5, as the code has it. When none of the identifiers is known, \<^verbatim>\<open>broadcast-input\<close>
  answers \<^verbatim>\<open>No valid panes found\<close> and leaves the state as it was, running no script.
  Otherwise the unknown identifiers are dropped and the script is given exactly the
  session identifiers of the known panes, in the order of the list. The breakdown that
  comes back holds one entry for each session of the application whose identifier is among
  these: a known pane whose session is no longer open has no entry.
\<close>

theorem broadcast_known_panes:
  "(validPanes s paneIds = [] \<longrightarrow>
      broadcast_input e paneIds command s = (Inr (Text ''No valid panes found''), s)) \<and>
   (validPanes s paneIds \<noteq> [] \<longrightarrow>
      effects (snd (broadcast_input e paneIds command s)) =
        effects s @
        [WriteFile (scriptPath e)
           (BroadcastScript (known_session_ids s paneIds) (escape_quotes command)),
         Exec (scriptPath e), Unlink (scriptPath e)]) \<and>
   (validPanes s paneIds \<noteq> [] \<and>
    bridge_result e = Inr (broadcast_payload live send (known_session_ids s paneIds)) \<longrightarrow>
      fst (broadcast_input e paneIds command s) =
        Inr (BroadcastResults command
               (JNum (of_nat (length (target_sessions live (known_session_ids s paneIds)))))
               (JArr (map (broadcast_result send)
                        (target_sessions live (known_session_ids s paneIds))))))"
  by (auto simp: broadcast_input_def validPanes_def known_session_ids_def target_sessions_def
      call_bridge_eq after_bridge_def broadcast_payload_def read_prop_def Let_def
      split: sum.splits)

theorem broadcast_known_panes_witness:
  "validPanes one_pane [''pane-7''] = [] \<and>
   broadcast_input env_sent_one [''pane-7''] ''ls'' one_pane =
     (Inr (Text ''No valid panes found''), one_pane) \<and>
   validPanes one_pane [''pane-7'', ''pane-0''] = [''pane-0''] \<and>
   known_session_ids one_pane [''pane-7'', ''pane-0''] = [JStr ''S1''] \<and>
   effects (snd (broadcast_input env_sent_one [''pane-7'', ''pane-0''] ''ls'' one_pane)) =
     effects one_pane @
     [WriteFile ''iterm_script_7000.py'' (BroadcastScript [JStr ''S1''] ''ls''),
      Exec ''iterm_script_7000.py'', Unlink ''iterm_script_7000.py''] \<and>
   bridge_result env_sent_one = Inr (broadcast_payload [''S0'', ''S1''] send_ok [JStr ''S1'']) \<and>
   fst (broadcast_input env_sent_one [''pane-7'', ''pane-0''] ''ls'' one_pane) =
     Inr (BroadcastResults ''ls'' (JNum 1)
            (JArr [JObj [(''session_id'', JStr ''S1''), (''success'', JBool True)]]))"
proof -
  have v: "validPanes one_pane [''pane-7''] = []"
    "validPanes one_pane [''pane-7'', ''pane-0''] = [''pane-0'']"
    "known_session_ids one_pane [''pane-7'', ''pane-0''] = [JStr ''S1'']"
    by (simp_all add: validPanes_def known_session_ids_def map_has_def one_pane_eq)
  have b: "bridge_result env_sent_one = Inr (broadcast_payload [''S0'', ''S1''] send_ok [JStr ''S1''])"
    by (simp add: demo_results broadcast_payload_def broadcast_result_def send_ok_def)
  show ?thesis
    using broadcast_known_panes [of one_pane "[''pane-7'']" env_sent_one "''ls''"]
      broadcast_known_panes [of one_pane "[''pane-7'', ''pane-0'']" env_sent_one "''ls''"
        "[''S0'', ''S1'']" send_ok] v b
    by (simp add: target_sessions_def broadcast_result_def send_ok_def demo_paths
        escape_quotes_def)
qed

text \<open>
  C5 as stated fails: \<^verbatim>\<open>pane-0\<close> is known and its session is \<^verbatim>\<open>S1\<close>, the application has
  no such session any more, and the breakdown is empty.
\<close>

theorem broadcast_stale_session_missing:
  "validPanes one_pane [''pane-0'', ''pane-7''] = [''pane-0''] \<and>
   known_session_ids one_pane [''pane-0'', ''pane-7''] = [JStr ''S1''] \<and>
   bridge_result env_sent_none = Inr (broadcast_payload [] send_ok [JStr ''S1'']) \<and>
   fst (broadcast_input env_sent_none [''pane-0'', ''pane-7''] ''ls'' one_pane) =
     Inr (BroadcastResults ''ls'' (JNum 0) (JArr []))"
  by (simp add: validPanes_def known_session_ids_def map_has_def one_pane_eq
      broadcast_input_def call_bridge_eq demo_results broadcast_payload_def read_prop_def)

section \<open>A bridge call that fails\<close>

text \<open>Each handler when the bridge fails, and what each handler leaves of the tracker.\<close>

lemma tracker_after_bridge [simp]: "tracker (after_bridge e sc s) = tracker s"
  by (simp add: tracker_def after_bridge_def)


lemma bridge_failed_result: "bridge_failed e \<Longrightarrow> bridge_result e = Inl (failure_message e)"
  by (cases "bridge_result e") (simp_all add: bridge_failed_def failure_message_def)

lemma open_terminal_failed:
  "bridge_result e = Inl m \<Longrightarrow>
     fst (open_terminal e profile command workingDir s) = Inl (Error (''Failed to create terminal: '' @ m)) \<and>
     tracker (snd (open_terminal e profile command workingDir s)) = tracker s"
  by (simp add: open_terminal_def allocWindowId_def allocTabId_def allocPaneId_def call_bridge_eq
      tracker_def after_bridge_def)

lemma split_terminal_failed:
  "bridge_result e = Inl m \<Longrightarrow> invoked s (snd (split_terminal v e paneId profile command s)) \<Longrightarrow>
     fst (split_terminal v e paneId profile command s) =
       Inl (Error (''Failed to split pane '' @ split_word v @ '': '' @ m))"
  by (auto simp: split_terminal_def allocPaneId_def call_bridge_eq invoked_def split: sum.splits)



lemma execute_command_failed:
  "bridge_result e = Inl m \<Longrightarrow> invoked s (snd (execute_command_in_pane e paneId command s)) \<Longrightarrow>
     fst (execute_command_in_pane e paneId command s) =
       Inr (Text (''Failed to execute command in pane '' @ paneId @ '': '' @ m))"
  by (auto simp: execute_command_in_pane_def call_bridge_eq invoked_def split: option.splits)


lemma get_session_info_failed:
  "bridge_result e = Inl m \<Longrightarrow> invoked s (snd (get_session_info e paneId s)) \<Longrightarrow>
     fst (get_session_info e paneId s) = Inr (Text (''Failed to get session info: '' @ m))"
  by (auto simp: get_session_info_def call_bridge_eq invoked_def split: option.splits)


lemma get_session_details_failed:
  "bridge_result e = Inl m \<Longrightarrow>
     fst (get_session_details e sid s) = Inr (Text (''Failed to read session content: '' @ m))"
  by (simp add: get_session_details_def call_bridge_eq)


lemma set_tab_color_failed:
  "bridge_result e = Inl m \<Longrightarrow> invoked s (snd (set_tab_color e paneId col s)) \<Longrightarrow>
     fst (set_tab_color e paneId col s) = Inr (Text (''Failed to set tab color: '' @ m))"
  by (auto simp: set_tab_color_def call_bridge_eq invoked_def split: option.splits)


lemma list_all_sessions_failed:
  "bridge_result e = Inl m \<Longrightarrow>
     fst (list_all_sessions e s) = Inr (Text (''Failed to list sessions: '' @ m))"
  by (simp add: list_all_sessions_def call_bridge_eq)


lemma monitor_session_failed:
  "bridge_result e = Inl m \<Longrightarrow> invoked s (snd (monitor_session e paneId duration s)) \<Longrightarrow>
     fst (monitor_session e paneId duration s) = Inr (Text (''Failed to monitor session: '' @ m))"
  by (auto simp: monitor_session_def call_bridge_eq invoked_def split: option.splits)


lemma broadcast_input_failed:
  "bridge_result e = Inl m \<Longrightarrow> invoked s (snd (broadcast_input e paneIds command s)) \<Longrightarrow>
     fst (broadcast_input e paneIds command s) = Inr (Text (''Failed to broadcast input: '' @ m))"
  by (auto simp: broadcast_input_def call_bridge_eq invoked_def Let_def)



text \<open>
  C1, as the code has it. When the bridge call of an operation fails (the process does
  not start, is killed at the timeout, exits with a non-zero code, or prints what does not
  parse), the handler turns the failure into its own formatted message, the handler's
  prefix followed by the message of the failure. Seven operations return that message as
  their response. \<^verbatim>\<open>open-terminal\<close> and the two splits throw it instead, as a new
  \<^verbatim>\<open>Error\<close>, out of the handler.
\<close>

theorem bridge_failure_response:
  "bridge_failed e \<Longrightarrow> invoked s (snd (dispatch e c s)) \<Longrightarrow>
     fst (dispatch e c s) =
       (if creates c then Inl (Error (failed_prefix c @ failure_message e))
        else Inr (Text (failed_prefix c @ failure_message e)))"
proof -
  assume "bridge_failed e" and inv: "invoked s (snd (dispatch e c s))"
  then have m: "bridge_result e = Inl (failure_message e)"
    by (simp add: bridge_failed_result)
  show ?thesis
  proof (cases c)
    case (OpenTerminal profile command workingDir)
    then show ?thesis using open_terminal_failed [OF m] by simp
  next
    case (SplitTerminalHorizontal paneId profile command)
    then show ?thesis
      using split_terminal_failed [OF m, of s False paneId profile command] inv
      by (simp add: split_terminal_horizontal_def split_word_def)
  next
    case (SplitTerminalVertical paneId profile command)
    then show ?thesis
      using split_terminal_failed [OF m, of s True paneId profile command] inv
      by (simp add: split_terminal_vertical_def split_word_def)
  next
    case (ExecuteCommandInPane paneId command)
    then show ?thesis using execute_command_failed [OF m] inv by simp
  next
    case (GetSessionInfo paneId)
    then show ?thesis using get_session_info_failed [OF m] inv by simp
  next
    case (GetSessionDetails sid)
    then show ?thesis using get_session_details_failed [OF m] by simp
  next
    case (SetTabColor paneId col)
    then show ?thesis using set_tab_color_failed [OF m] inv by simp
  next
    case ListAllSessions
    then show ?thesis using list_all_sessions_failed [OF m] by simp
  next
    case (MonitorSession paneId duration)
    then show ?thesis using monitor_session_failed [OF m] inv by simp
  next
    case (BroadcastInput paneIds command)
    then show ?thesis using broadcast_input_failed [OF m] inv by simp
  next
    case ListPanes
    then show ?thesis using inv by (simp add: list_panes_def invoked_def)
  next
    case GetTerminalState
    then show ?thesis using inv by (simp add: get_terminal_state_def invoked_def)
  qed
qed

theorem bridge_failure_response_witness:
  "bridge_failed env_killed \<and>
   invoked one_pane (snd (dispatch env_killed (GetSessionInfo ''pane-0'') one_pane)) \<and>
   fst (dispatch env_killed (GetSessionInfo ''pane-0'') one_pane) =
     Inr (Text ''Failed to get session info: Python execution failed: Command failed: timeout'') \<and>
   invoked one_pane (snd (dispatch env_killed (SplitTerminalVertical None None None) one_pane)) \<and>
   fst (dispatch env_killed (SplitTerminalVertical None None None) one_pane) =
     Inl (Error ''Failed to split pane vertically: Python execution failed: Command failed: timeout'') \<and>
   bridge_failed env_exit1 \<and>
   invoked initial (snd (dispatch env_exit1 ListAllSessions initial)) \<and>
   fst (dispatch env_exit1 ListAllSessions initial) =
     Inr (Text ''Failed to list sessions: Python execution failed: Command failed: python3'') \<and>
   bridge_failed env_garbled \<and>
   invoked initial (snd (dispatch env_garbled (GetSessionDetails ''S1'') initial)) \<and>
   fst (dispatch env_garbled (GetSessionDetails ''S1'') initial) =
     Inr (Text ''Failed to read session content: Unexpected token'')"
proof -
  have f: "bridge_failed env_killed" "bridge_failed env_exit1" "bridge_failed env_garbled"
    by (simp_all add: bridge_failed_def demo_results)
  have i1: "invoked one_pane (snd (dispatch env_killed (GetSessionInfo ''pane-0'') one_pane))"
    by (simp add: invoked_def get_session_info_def call_bridge_eq demo_results one_pane_eq
        after_bridge_def)
  have i2: "invoked one_pane (snd (dispatch env_killed (SplitTerminalVertical None None None) one_pane))"
    by (simp add: invoked_def split_terminal_vertical_def split_terminal_def resolveTarget_def
        hole_def map_values_def allocPaneId_def call_bridge_eq demo_results one_pane_eq
        after_bridge_def)
  have i3: "invoked initial (snd (dispatch env_exit1 ListAllSessions initial))"
    by (simp add: invoked_def list_all_sessions_def call_bridge_eq demo_results after_bridge_def)
  have i4: "invoked initial (snd (dispatch env_garbled (GetSessionDetails ''S1'') initial))"
    by (simp add: invoked_def get_session_details_def call_bridge_eq demo_results after_bridge_def)
  show ?thesis
    using bridge_failure_response [OF f(1) i1] bridge_failure_response [OF f(1) i2]
      bridge_failure_response [OF f(2) i3] bridge_failure_response [OF f(3) i4] f i1 i2 i3 i4
    by (simp add: failure_message_def demo_results)
qed

text \<open>
  C1 as stated fails: with the process killed at the timeout, \<^verbatim>\<open>open-terminal\<close> returns no
  response; its handler throws.
\<close>

theorem open_terminal_rethrows:
  "bridge_failed env_killed \<and>
   fst (dispatch env_killed (OpenTerminal None None None) initial) =
     Inl (Error ''Failed to create terminal: Python execution failed: Command failed: timeout'')"
  by (simp add: bridge_failed_def demo_results open_terminal_def allocWindowId_def allocTabId_def
      allocPaneId_def call_bridge_eq)









section \<open>Splitting a pane\<close>

lemma resolveTarget_Inl_Text: "resolveTarget paneId s = Inl resp \<Longrightarrow> \<exists>t. resp = Text t"
  by (auto simp: resolveTarget_def split: option.splits list.splits)

lemma resolveTarget_in_store:
  "refs_ok s \<Longrightarrow> resolveTarget paneId s = Inr r \<Longrightarrow> r < length (paneObjs s)"
  using resolveTarget_member [of paneId s r] by (auto simp: refs_ok_def list_all_iff)

text \<open>
  References stay inside the store: every handler keeps \<open>refs_ok\<close>, so it holds in every
  state a run reaches from the initial state.
\<close>

lemma map_set_valuesD:
  "r \<in> set (map_values (map_set k v m)) \<Longrightarrow> r = v \<or> r \<in> set (map_values m)"
  by (induction m) (auto simp: map_values_def split: if_splits)

lemma refs_ok_open_terminal:
  "refs_ok s \<Longrightarrow> refs_ok (snd (open_terminal e profile command workingDir s))"
  by (auto simp: open_terminal_def allocWindowId_def allocTabId_def allocPaneId_def call_bridge_eq
      refs_ok_def list_all_iff after_bridge_def Let_def less_Suc_eq
      split: sum.splits dest!: map_set_valuesD)

lemma refs_ok_split_terminal:
  "refs_ok s \<Longrightarrow> refs_ok (snd (split_terminal v e paneId profile command s))"
  by (auto simp: split_terminal_def allocPaneId_def call_bridge_eq
      refs_ok_def list_all_iff after_bridge_def Let_def less_Suc_eq
      split: sum.splits option.splits dest!: map_set_valuesD)

lemma refs_ok_others:
  "refs_ok s \<Longrightarrow> refs_ok (snd (execute_command_in_pane e paneId command s))"
  "refs_ok s \<Longrightarrow> refs_ok (snd (get_session_info e paneId s))"
  "refs_ok s \<Longrightarrow> refs_ok (snd (get_session_details e sid s))"
  "refs_ok s \<Longrightarrow> refs_ok (snd (set_tab_color e paneId col s))"
  "refs_ok s \<Longrightarrow> refs_ok (snd (list_all_sessions e s))"
  "refs_ok s \<Longrightarrow> refs_ok (snd (monitor_session e paneId duration s))"
  "refs_ok s \<Longrightarrow> refs_ok (snd (broadcast_input e paneIds command s))"
  by (auto simp: execute_command_in_pane_def get_session_info_def
      get_session_details_def set_tab_color_def list_all_sessions_def monitor_session_def
      broadcast_input_def call_bridge_eq refs_ok_def list_all_iff after_bridge_def
      Let_def split: sum.splits option.splits)

lemma refs_ok_dispatch: "refs_ok s \<Longrightarrow> refs_ok (snd (dispatch e c s))"
  by (cases c)
    (simp_all add: refs_ok_open_terminal refs_ok_split_terminal refs_ok_others
      split_terminal_horizontal_def split_terminal_vertical_def list_panes_def
      get_terminal_state_def)

lemma refs_ok_run: "refs_ok s \<Longrightarrow> refs_ok (snd (run calls s))"
proof (induction calls arbitrary: s)
  case Nil
  then show ?case by simp
next
  case (Cons ec calls)
  obtain e c where ec: "ec = (e, c)" by (cases ec)
  from Cons.prems have "refs_ok (snd (dispatch e c s))"
    by (rule refs_ok_dispatch)
  then have "refs_ok (snd (run calls (snd (dispatch e c s))))"
    by (rule Cons.IH)
  then show ?case
    by (auto simp: ec split: prod.splits)
qed

lemma refs_ok_reachable: "refs_ok (snd (run calls initial))"
  by (rule refs_ok_run) (simp add: refs_ok_def initial_def map_values_def)

text \<open>
  C2. After a split that succeeded, of the pane P the handler resolved (named by the
  caller or the default active pane), in a state whose references point into the store:
  P is as it was but for its active flag, which is false; the new identifier is bound in
  \<^verbatim>\<open>panes\<close> to a new pane, which is not P, is active, carries P's tab and window
  identifiers, and sits one unit from P along the split axis (x + 1 for a vertical split,
  y + 1 for a horizontal one), the other coordinate being P's.
\<close>

theorem split_marks_panes:
  assumes ok: "refs_ok s"
    and split: "split_terminal vertical e paneId profile command s = (Inr (PaneSplit orientation newId sess), s')"
  shows "\<exists>target newRef.
           resolveTarget paneId s = Inr target \<and>
           newId = ''pane-'' @ num_to_string (paneCounter s) \<and>
           paneObjs s' ! target = (paneObjs s ! target)\<lparr> isActive := False \<rparr> \<and>
           \<not> isActive (paneObjs s' ! target) \<and>
           map_of (panes s') newId = Some newRef \<and>
           newRef \<noteq> target \<and>
           isActive (paneObjs s' ! newRef) \<and>
           pane_id (paneObjs s' ! newRef) = newId \<and>
           pane_tabId (paneObjs s' ! newRef) = pane_tabId (paneObjs s ! target) \<and>
           pane_windowId (paneObjs s' ! newRef) = pane_windowId (paneObjs s ! target) \<and>
           position_x (paneObjs s' ! newRef) =
             position_x (paneObjs s ! target) + (if vertical then 1 else 0) \<and>
           position_y (paneObjs s' ! newRef) =
             position_y (paneObjs s ! target) + (if vertical then 0 else 1)"
proof (cases "resolveTarget paneId s")
  case (Inl resp)
  with split resolveTarget_Inl_Text [OF Inl] show ?thesis
    by (auto simp: split_terminal_def)
next
  case (Inr target)
  have t: "target < length (paneObjs s)"
    using ok Inr by (rule resolveTarget_in_store)
  from split Inr obtain data err tabRef where
    b: "bridge_result e = Inr data" and
    er: "get_prop data ''error'' = Inr err" "\<not> truthy err" and
    tb: "map_of (tabs s) (pane_tabId (paneObjs s ! target)) = Some tabRef"
    by (auto simp: split_terminal_def allocPaneId_def call_bridge_eq after_bridge_def Let_def
        split: sum.splits option.splits if_splits)
  from split Inr b er tb have
    newId: "newId = ''pane-'' @ num_to_string (paneCounter s)" and
    panes': "panes s' = map_set newId (length (paneObjs s)) (panes s)" and
    objs': "paneObjs s' =
       (paneObjs s @
        [\<lparr> pane_id = newId, sessionId = read_prop data ''newSessionId'',
           pane_windowId = pane_windowId (paneObjs s ! target),
           pane_tabId = pane_tabId (paneObjs s ! target),
           position_x = (if vertical then position_x (paneObjs s ! target) + 1
                         else position_x (paneObjs s ! target)),
           position_y = (if vertical then position_y (paneObjs s ! target)
                         else position_y (paneObjs s ! target) + 1),
           isActive = True, title = JUndefined, workingDirectory = JUndefined,
           foregroundJob = JUndefined \<rparr>])
       [target := (paneObjs s ! target)\<lparr> isActive := False \<rparr>]"
    using t
    by (auto simp: split_terminal_def allocPaneId_def call_bridge_eq after_bridge_def Let_def
        nth_append)
  have old: "paneObjs s' ! target = (paneObjs s ! target)\<lparr> isActive := False \<rparr>"
    using t by (simp add: objs')
  have new: "map_of (panes s') newId = Some (length (paneObjs s))"
    by (simp add: panes' map_of_map_set)
  have neq: "length (paneObjs s) \<noteq> target"
    using t by simp
  have newobj: "paneObjs s' ! length (paneObjs s) =
        \<lparr> pane_id = newId, sessionId = read_prop data ''newSessionId'',
           pane_windowId = pane_windowId (paneObjs s ! target),
           pane_tabId = pane_tabId (paneObjs s ! target),
           position_x = (if vertical then position_x (paneObjs s ! target) + 1
                         else position_x (paneObjs s ! target)),
           position_y = (if vertical then position_y (paneObjs s ! target)
                         else position_y (paneObjs s ! target) + 1),
           isActive = True, title = JUndefined, workingDirectory = JUndefined,
           foregroundJob = JUndefined \<rparr>"
    using neq by (simp add: objs')
  show ?thesis
    using Inr newId old new neq newobj by auto
qed

text \<open>The end-to-end scenario: \<^verbatim>\<open>open-terminal\<close>, then \<^verbatim>\<open>split-terminal-vertical({})\<close>.\<close>

lemma refs_ok_one_pane: "refs_ok one_pane"
  by (simp add: refs_ok_def one_pane_eq map_values_def)

lemma two_panes_eq:
  "split_terminal True env_split None None None one_pane =
     (Inr (PaneSplit True ''pane-1'' (JStr ''S2'')),
      \<lparr> windows = [(''window-0'', \<lparr> window_id = ''window-0'', window_tabs = [(''tab-0'', 0)],
                                  activeTabId = Some ''tab-0'' \<rparr>)],
        tabs = [(''tab-0'', 0)], panes = [(''pane-0'', 0), (''pane-1'', 1)],
        paneObjs = [\<lparr> pane_id = ''pane-0'', sessionId = JStr ''S1'', pane_windowId = ''window-0'',
                      pane_tabId = ''tab-0'', position_x = 0, position_y = 0, isActive = False,
                      title = JUndefined, workingDirectory = JUndefined,
                      foregroundJob = JUndefined \<rparr>,
                    \<lparr> pane_id = ''pane-1'', sessionId = JStr ''S2'', pane_windowId = ''window-0'',
                      pane_tabId = ''tab-0'', position_x = 1, position_y = 0, isActive = True,
                      title = JUndefined, workingDirectory = JUndefined,
                      foregroundJob = JUndefined \<rparr>],
        tabObjs = [\<lparr> tab_id = ''tab-0'', tab_windowId = ''window-0'',
                     tab_panes = [(''pane-0'', 0), (''pane-1'', 1)],
                     activePaneId = Some ''pane-0'', color = None \<rparr>],
        windowCounter = 1, tabCounter = 1, paneCounter = 2,
        files = [],
        effects = [WriteFile ''iterm_script_1000.py''
                     (OpenTerminalScript None None (Some ''echo hi'') ''window-0'' ''tab-0'' ''pane-0''),
                   Exec ''iterm_script_1000.py'', Unlink ''iterm_script_1000.py'',
                   WriteFile ''iterm_script_2000.py''
                     (SplitScript True (JStr ''S1'') None None ''pane-1''),
                   Exec ''iterm_script_2000.py'', Unlink ''iterm_script_2000.py''],
        console = [] \<rparr>)"
  by (simp add: split_terminal_def resolveTarget_def hole_def map_values_def allocPaneId_def
      call_bridge_eq demo_results demo_logs demo_paths after_bridge_def one_pane_eq read_prop_def
      num_to_string.simps digit_char_def)

theorem split_marks_panes_witness:
  "refs_ok one_pane \<and>
   fst (split_terminal True env_split None None None one_pane) =
     Inr (PaneSplit True ''pane-1'' (JStr ''S2'')) \<and>
   resolveTarget None one_pane = Inr 0 \<and>
   isActive (paneObjs one_pane ! 0) \<and>
   \<not> isActive (paneObjs two_panes ! 0) \<and>
   map_of (panes two_panes) ''pane-1'' = Some 1 \<and>
   isActive (paneObjs two_panes ! 1) \<and>
   pane_tabId (paneObjs two_panes ! 1) = pane_tabId (paneObjs one_pane ! 0) \<and>
   pane_windowId (paneObjs two_panes ! 1) = pane_windowId (paneObjs one_pane ! 0) \<and>
   position_x (paneObjs two_panes ! 1) = position_x (paneObjs one_pane ! 0) + 1 \<and>
   position_y (paneObjs two_panes ! 1) = position_y (paneObjs one_pane ! 0)"
proof -
  have split: "split_terminal True env_split None None None one_pane =
      (Inr (PaneSplit True ''pane-1'' (JStr ''S2'')), two_panes)"
    by (simp add: two_panes_def two_panes_eq)
  have new: "map_of (panes two_panes) ''pane-1'' = Some 1"
    unfolding two_panes_def two_panes_eq by simp
  have res: "resolveTarget None one_pane = Inr 0"
    by (simp add: resolveTarget_def hole_def map_values_def one_pane_eq)
  have before: "isActive (paneObjs one_pane ! 0)"
    by (simp add: one_pane_eq)
  from split_marks_panes [OF refs_ok_one_pane split] obtain target newRef where
    h: "resolveTarget None one_pane = Inr target"
      "\<not> isActive (paneObjs two_panes ! target)"
      "map_of (panes two_panes) ''pane-1'' = Some newRef"
      "isActive (paneObjs two_panes ! newRef)"
      "pane_tabId (paneObjs two_panes ! newRef) = pane_tabId (paneObjs one_pane ! target)"
      "pane_windowId (paneObjs two_panes ! newRef) = pane_windowId (paneObjs one_pane ! target)"
      "position_x (paneObjs two_panes ! newRef) =
         position_x (paneObjs one_pane ! target) + (if True then 1 else 0)"
      "position_y (paneObjs two_panes ! newRef) =
         position_y (paneObjs one_pane ! target) + (if True then 0 else 1)"
    by blast
  from h(1) res have target: "target = 0" by simp
  from h(3) new have newRef: "newRef = 1" by simp
  from h(2,4,5,6,7,8) show ?thesis
    unfolding target newRef using refs_ok_one_pane split res before new by simp
qed

section \<open>Identifiers\<close>

text \<open>Decimal digits read back give the number, so distinct numbers render differently.\<close>

lemma digit_val_digit_char: "d < 10 \<Longrightarrow> digit_val (digit_char d) = d"
proof -
  assume "d < 10"
  then have "d \<in> {0, 1, 2, 3, 4, 5, 6, 7, 8, 9}" by auto
  then show ?thesis
    by (auto simp: digit_val_def digit_char_def)
qed

lemma digits_val_snoc: "digits_val (cs @ [c]) = 10 * digits_val cs + digit_val c"
  by (simp add: digits_val_def)

lemma digits_val_num_to_string: "digits_val (num_to_string n) = n"
proof (induction n rule: num_to_string.induct)
  case (1 n)
  show ?case
  proof (cases "n < 10")
    case True
    then show ?thesis
      using digits_val_snoc [of "[]" "digit_char n"]
      by (simp add: num_to_string.simps digit_val_digit_char digits_val_def)
  next
    case False
    with 1 have "digits_val (num_to_string (n div 10)) = n div 10" by simp
    with False show ?thesis
      by (subst num_to_string.simps) (simp add: digits_val_snoc digit_val_digit_char)
  qed
qed

lemma suffix_number_id: "suffix_number (length prefix) (prefix @ num_to_string n) = n"
  by (simp add: suffix_number_def digits_val_num_to_string)

lemma suffix_numbers_tail: "map (suffix_number (length prefix)) (ids_tail prefix a b) = [a ..< b]"
  by (simp add: ids_tail_def suffix_number_id map_idI)

lemma distinct_ids_tail: "distinct (ids_tail prefix a b)"
proof -
  have "distinct (map (suffix_number (length prefix)) (ids_tail prefix a b))"
    by (simp add: suffix_numbers_tail)
  then show ?thesis
    by (simp only: distinct_map)
qed

lemma ids_tail_append:
  "a \<le> b \<Longrightarrow> b \<le> c \<Longrightarrow> ids_tail prefix a b @ ids_tail prefix b c = ids_tail prefix a c"
  using upt_add_eq_append [of a b "c - b"] by (simp add: ids_tail_def)

lemma ids_tail_same [simp]: "ids_tail prefix a a = []"
  by (simp add: ids_tail_def)

lemma ids_tail_one [simp]: "ids_tail prefix a (Suc a) = [prefix @ num_to_string a]"
  by (simp add: ids_tail_def)

lemma written_append: "written (xs @ ys) = written xs @ written ys"
  by (induction xs rule: written.induct) simp_all

lemma ids_follow_refl: "ids_follow_counters s s"
  by (simp add: ids_follow_counters_def)

lemma ids_follow_trans:
  "ids_follow_counters s s' \<Longrightarrow> ids_follow_counters s' s'' \<Longrightarrow> ids_follow_counters s s''"
  by (auto simp: ids_follow_counters_def ids_tail_append)

lemma ids_after_bridge:
  "window_ids (after_bridge e sc s) = window_ids s @ script_window_ids sc"
  "tab_ids (after_bridge e sc s) = tab_ids s @ script_tab_ids sc"
  "pane_ids (after_bridge e sc s) = pane_ids s @ script_pane_ids sc"
  "windowCounter (after_bridge e sc s) = windowCounter s"
  "tabCounter (after_bridge e sc s) = tabCounter s"
  "paneCounter (after_bridge e sc s) = paneCounter s"
  by (simp_all add: window_ids_def tab_ids_def pane_ids_def after_bridge_def written_append)

lemma ids_tracker_update [simp]:
  "window_ids (s\<lparr> paneObjs := a \<rparr>) = window_ids s"
  "tab_ids (s\<lparr> paneObjs := a \<rparr>) = tab_ids s"
  "pane_ids (s\<lparr> paneObjs := a \<rparr>) = pane_ids s"
  "window_ids (s\<lparr> tabObjs := b \<rparr>) = window_ids s"
  "tab_ids (s\<lparr> tabObjs := b \<rparr>) = tab_ids s"
  "pane_ids (s\<lparr> tabObjs := b \<rparr>) = pane_ids s"
  "window_ids (s\<lparr> panes := c \<rparr>) = window_ids s"
  "tab_ids (s\<lparr> panes := c \<rparr>) = tab_ids s"
  "pane_ids (s\<lparr> panes := c \<rparr>) = pane_ids s"
  "window_ids (s\<lparr> tabs := d \<rparr>) = window_ids s"
  "tab_ids (s\<lparr> tabs := d \<rparr>) = tab_ids s"
  "pane_ids (s\<lparr> tabs := d \<rparr>) = pane_ids s"
  "window_ids (s\<lparr> windows := w \<rparr>) = window_ids s"
  "tab_ids (s\<lparr> windows := w \<rparr>) = tab_ids s"
  "pane_ids (s\<lparr> windows := w \<rparr>) = pane_ids s"
  "window_ids (s\<lparr> windowCounter := n \<rparr>) = window_ids s"
  "tab_ids (s\<lparr> windowCounter := n \<rparr>) = tab_ids s"
  "pane_ids (s\<lparr> windowCounter := n \<rparr>) = pane_ids s"
  "window_ids (s\<lparr> tabCounter := n \<rparr>) = window_ids s"
  "tab_ids (s\<lparr> tabCounter := n \<rparr>) = tab_ids s"
  "pane_ids (s\<lparr> tabCounter := n \<rparr>) = pane_ids s"
  "window_ids (s\<lparr> paneCounter := n \<rparr>) = window_ids s"
  "tab_ids (s\<lparr> paneCounter := n \<rparr>) = tab_ids s"
  "pane_ids (s\<lparr> paneCounter := n \<rparr>) = pane_ids s"
  by (simp_all add: window_ids_def tab_ids_def pane_ids_def)

lemma open_terminal_ids: "ids_follow_counters s (snd (open_terminal e profile command workingDir s))"
  by (auto simp: ids_follow_counters_def open_terminal_def allocWindowId_def allocTabId_def
      allocPaneId_def call_bridge_eq ids_after_bridge Let_def split: sum.splits)

lemma split_terminal_ids: "ids_follow_counters s (snd (split_terminal v e paneId profile command s))"
  by (auto simp: ids_follow_counters_def split_terminal_def allocPaneId_def call_bridge_eq
      ids_after_bridge Let_def split: sum.splits option.splits)

lemma other_ids:
  "ids_follow_counters s (snd (execute_command_in_pane e paneId command s))"
  "ids_follow_counters s (snd (get_session_info e paneId s))"
  "ids_follow_counters s (snd (get_session_details e sid s))"
  "ids_follow_counters s (snd (set_tab_color e paneId col s))"
  "ids_follow_counters s (snd (list_all_sessions e s))"
  "ids_follow_counters s (snd (monitor_session e paneId duration s))"
  "ids_follow_counters s (snd (broadcast_input e paneIds command s))"
  "ids_follow_counters s (snd (list_panes s))"
  "ids_follow_counters s (snd (get_terminal_state s))"
  by (auto simp: ids_follow_counters_def execute_command_in_pane_def get_session_info_def
      get_session_details_def set_tab_color_def list_all_sessions_def monitor_session_def
      broadcast_input_def list_panes_def get_terminal_state_def call_bridge_eq ids_after_bridge
      Let_def split: sum.splits option.splits)

lemma dispatch_ids: "ids_follow_counters s (snd (dispatch e c s))"
  by (cases c)
    (simp_all add: open_terminal_ids split_terminal_ids other_ids split_terminal_horizontal_def
      split_terminal_vertical_def)

lemma run_ids: "ids_follow_counters s (snd (run calls s))"
proof (induction calls arbitrary: s)
  case Nil
  then show ?case by (simp add: ids_follow_refl)
next
  case (Cons ec calls)
  obtain e c where ec: "ec = (e, c)" by (cases ec)
  have "ids_follow_counters s (snd (dispatch e c s))"
    by (rule dispatch_ids)
  moreover have "ids_follow_counters (snd (dispatch e c s)) (snd (run calls (snd (dispatch e c s))))"
    by (rule Cons.IH)
  ultimately show ?case
    by (auto simp: ec split: prod.splits intro: ids_follow_trans)
qed

text \<open>
  C4. In every run of calls from the initial state, whichever of them fail, the window
  identifiers written out are \<^verbatim>\<open>window-0\<close>, \<^verbatim>\<open>window-1\<close>, ... up to the counter, in this
  order: their numbers increase strictly and no identifier occurs twice. The same holds
  for tab and pane identifiers. Counters are natural numbers here; the doubles of the
  source count exactly up to 2^53.
\<close>

theorem identifiers_increase:
  "window_ids (snd (run calls initial)) =
     map (\<lambda>n. ''window-'' @ num_to_string n) [0 ..< windowCounter (snd (run calls initial))] \<and>
   sorted_wrt (<) (map (suffix_number 7) (window_ids (snd (run calls initial)))) \<and>
   distinct (window_ids (snd (run calls initial))) \<and>
   tab_ids (snd (run calls initial)) =
     map (\<lambda>n. ''tab-'' @ num_to_string n) [0 ..< tabCounter (snd (run calls initial))] \<and>
   sorted_wrt (<) (map (suffix_number 4) (tab_ids (snd (run calls initial)))) \<and>
   distinct (tab_ids (snd (run calls initial))) \<and>
   pane_ids (snd (run calls initial)) =
     map (\<lambda>n. ''pane-'' @ num_to_string n) [0 ..< paneCounter (snd (run calls initial))] \<and>
   sorted_wrt (<) (map (suffix_number 5) (pane_ids (snd (run calls initial)))) \<and>
   distinct (pane_ids (snd (run calls initial)))"
proof -
  let ?s = "snd (run calls initial)"
  have "ids_follow_counters initial ?s"
    by (rule run_ids)
  then have w: "window_ids ?s = ids_tail ''window-'' 0 (windowCounter ?s)"
    and t: "tab_ids ?s = ids_tail ''tab-'' 0 (tabCounter ?s)"
    and p: "pane_ids ?s = ids_tail ''pane-'' 0 (paneCounter ?s)"
    by (simp_all add: ids_follow_counters_def initial_def window_ids_def tab_ids_def pane_ids_def)
  have len: "length ''window-'' = 7" "length ''tab-'' = 4" "length ''pane-'' = 5"
    by simp_all
  have "map (suffix_number 7) (window_ids ?s) = [0 ..< windowCounter ?s]"
    unfolding w by (rule suffix_numbers_tail [of "''window-''", unfolded len])
  moreover have "map (suffix_number 4) (tab_ids ?s) = [0 ..< tabCounter ?s]"
    unfolding t by (rule suffix_numbers_tail [of "''tab-''", unfolded len])
  moreover have "map (suffix_number 5) (pane_ids ?s) = [0 ..< paneCounter ?s]"
    unfolding p by (rule suffix_numbers_tail [of "''pane-''", unfolded len])
  ultimately show ?thesis
    by (simp add: w t p distinct_ids_tail) (simp add: ids_tail_def)
qed


lemma demo_run:
  "fst (run demo_calls initial) =
     [Inl (Error ''Failed to create terminal: Python execution failed: Command failed: timeout''),
      Inr (TerminalOpened ''window-1'' ''tab-1'' ''pane-1'' (JStr ''S1'')),
      Inl (Error ''Failed to split pane horizontally: Python execution failed: Command failed: timeout''),
      Inr (PaneSplit True ''pane-3'' (JStr ''S2''))]"
  "windowCounter (snd (run demo_calls initial)) = 2"
  "tabCounter (snd (run demo_calls initial)) = 2"
  "paneCounter (snd (run demo_calls initial)) = 4"
  by (simp_all add: demo_calls_def split_terminal_horizontal_def split_terminal_vertical_def
      open_terminal_def split_terminal_def resolveTarget_def hole_def map_values_def
      allocWindowId_def allocTabId_def allocPaneId_def split_word_def
      call_bridge_eq demo_results demo_logs demo_paths after_bridge_def initial_def read_prop_def
      opt_jsval_def num_to_string.simps digit_char_def)

theorem identifiers_increase_witness:
  "fst (run demo_calls initial) =
     [Inl (Error ''Failed to create terminal: Python execution failed: Command failed: timeout''),
      Inr (TerminalOpened ''window-1'' ''tab-1'' ''pane-1'' (JStr ''S1'')),
      Inl (Error ''Failed to split pane horizontally: Python execution failed: Command failed: timeout''),
      Inr (PaneSplit True ''pane-3'' (JStr ''S2''))] \<and>
   window_ids (snd (run demo_calls initial)) = [''window-0'', ''window-1''] \<and>
   tab_ids (snd (run demo_calls initial)) = [''tab-0'', ''tab-1''] \<and>
   pane_ids (snd (run demo_calls initial)) = [''pane-0'', ''pane-1'', ''pane-2'', ''pane-3'']"
  using identifiers_increase [of demo_calls]
  by (simp add: demo_run upt_conv_Cons num_to_string.simps digit_char_def)

end
